theory Spec2Isabelle
  imports Complex_Main
begin

section \<open>JavaScript numbers and strings\<close>

text \<open>
  The CRT overlay is a custom element with a flat configuration object, an attribute
  callback that parses attribute strings into it, a table of presets, and projections that
  write styles and filters derived from the configuration to the page.

  The overlay stores its parameters as JavaScript numbers, strings and booleans. A number
  is modelled as an exact rational, one of the two infinities or \<open>NaN\<close>. The model is
  exact where IEEE doubles round, and negative zero is identified with zero. The properties
  below do not depend on rounding: values are parsed, stored, compared with constants and
  printed. Strings are ASCII.
\<close>

datatype jsnum = Fin rat | PInf | NInf | NaN

datatype jsval = Num jsnum | Str string | Bool bool

definition isDigit :: "char \<Rightarrow> bool" where
  "isDigit c = (c \<in> set ''0123456789'')"

definition digitVal :: "char \<Rightarrow> int" where
  "digitVal c = of_char c - 48"

definition digitsVal :: "string \<Rightarrow> int" where
  "digitsVal ds = foldl (\<lambda>a c. 10 * a + digitVal c) 0 ds"

text \<open>ASCII white space: tab, line feed, vertical tab, form feed, carriage return, space.\<close>

definition isWhiteSpace :: "char \<Rightarrow> bool" where
  "isWhiteSpace c = (c \<in> set [CHR 0x09, CHR 0x0A, CHR 0x0B, CHR 0x0C, CHR 0x0D, CHR 0x20])"

definition splitSign :: "string \<Rightarrow> int \<times> string" where
  "splitSign s =
     (case s of
        [] \<Rightarrow> (1, [])
      | c # r \<Rightarrow> if c = CHR ''-'' then (- 1, r) else if c = CHR ''+'' then (1, r) else (1, s))"

definition pow10 :: "int \<Rightarrow> rat" where
  "pow10 e = (if 0 \<le> e then 10 ^ nat e else 1 / 10 ^ nat (- e))"

text \<open>The optional exponent part of a decimal literal; it counts only when digits follow.\<close>

definition exponentPart :: "string \<Rightarrow> int" where
  "exponentPart r =
     (case r of
        [] \<Rightarrow> 0
      | c # r1 \<Rightarrow>
          if c = CHR ''e'' \<or> c = CHR ''E''
          then (let (sg, r2) = splitSign r1; ds = takeWhile isDigit r2
                in if ds = [] then 0 else sg * digitsVal ds)
          else 0)"

text \<open>
  The global \<open>parseFloat\<close>: leading white space is skipped, the longest prefix that is a
  decimal literal is read, and the result is \<open>NaN\<close> when there is no such prefix.
\<close>

definition parseFloat :: "string \<Rightarrow> jsnum" where
  "parseFloat inputString =
     (let trimmed = dropWhile isWhiteSpace inputString;
          (sg, u) = splitSign trimmed
      in if take 8 u = ''Infinity'' then (if sg < 0 then NInf else PInf)
         else
           (let ip = takeWhile isDigit u;
                r1 = dropWhile isDigit u;
                hasDot = (case r1 of [] \<Rightarrow> False | c # _ \<Rightarrow> c = CHR ''.'');
                fp = (if hasDot then takeWhile isDigit (tl r1) else []);
                r2 = (if hasDot then dropWhile isDigit (tl r1) else r1)
            in if ip = [] \<and> fp = [] then NaN
               else Fin (of_int sg
                          * (of_int (digitsVal ip) + of_int (digitsVal fp) / 10 ^ length fp)
                          * pow10 (exponentPart r2))))"

text \<open>The global \<open>parseInt\<close> called with radix 10.\<close>

definition parseInt10 :: "string \<Rightarrow> jsnum" where
  "parseInt10 inputString =
     (let trimmed = dropWhile isWhiteSpace inputString;
          (sg, u) = splitSign trimmed;
          ds = takeWhile isDigit u
      in if ds = [] then NaN else Fin (of_int (sg * digitsVal ds)))"

text \<open>An attribute value is a string or \<open>null\<close>; both parsers first turn \<open>null\<close> into a string.\<close>

definition toStr :: "string option \<Rightarrow> string" where
  "toStr v = (case v of None \<Rightarrow> ''null'' | Some s \<Rightarrow> s)"

definition digitChar :: "int \<Rightarrow> char" where
  "digitChar d = char_of (48 + d)"

function natDigits :: "int \<Rightarrow> string" where
  "natDigits n = (if n < 10 then [digitChar n] else natDigits (n div 10) @ [digitChar (n mod 10)])"
  by pat_completeness auto
termination
  by (relation "measure nat") auto

declare natDigits.simps [simp del]

text \<open>
  The least number of decimal places after which a fraction with denominator \<open>b\<close> is an
  integer. The search is bounded by the denominator, which is enough for every decimal
  fraction.
\<close>

function findScale :: "int \<Rightarrow> int \<Rightarrow> nat \<Rightarrow> nat" where
  "findScale fuel b j =
     (if fuel \<le> 0 \<or> 10 ^ j mod b = 0 then j else findScale (fuel - 1) b (Suc j))"
  by pat_completeness auto
termination
  by (relation "measure (\<lambda>(fuel, b, j). nat fuel)") auto

declare findScale.simps [simp del]

function stripZeros :: "int \<Rightarrow> nat \<Rightarrow> int \<times> nat" where
  "stripZeros m z = (if m \<noteq> 0 \<and> m mod 10 = 0 then stripZeros (m div 10) (Suc z) else (m, z))"
  by pat_completeness auto
termination
  by (relation "measure (\<lambda>(m, z). nat \<bar>m\<bar>)") auto

declare stripZeros.simps [simp del]

text \<open>
  Number to string conversion for a positive number: with digits \<open>ds\<close> (\<open>k\<close> of them, no
  trailing zero) and decimal point position \<open>n\<close>, the four layouts of the language
  standard: integer, fraction, small fraction and exponent notation.
\<close>

definition posToString :: "rat \<Rightarrow> string" where
  "posToString q =
     (let (a, b) = quotient_of q;
          j = findScale b b 0;
          (s, z) = stripZeros (a * (10 ^ j div b)) 0;
          ds = natDigits s;
          k = int (length ds);
          n = k + int z - int j
      in if k \<le> n \<and> n \<le> 21 then ds @ replicate (nat (n - k)) CHR ''0''
         else if 0 < n \<and> n \<le> 21 then take (nat n) ds @ ''.'' @ drop (nat n) ds
         else if - 6 < n \<and> n \<le> 0 then ''0.'' @ replicate (nat (- n)) CHR ''0'' @ ds
         else (if k = 1 then ds else hd ds # ''.'' @ tl ds)
              @ ''e'' @ (if 0 \<le> n - 1 then ''+'' else ''-'') @ natDigits \<bar>n - 1\<bar>)"

definition numToString :: "jsnum \<Rightarrow> string" where
  "numToString x =
     (case x of
        NaN \<Rightarrow> ''NaN''
      | PInf \<Rightarrow> ''Infinity''
      | NInf \<Rightarrow> ''-Infinity''
      | Fin q \<Rightarrow> if q = 0 then ''0'' else if q < 0 then ''-'' @ posToString (- q) else posToString q)"

text \<open>\<open>String(value)\<close>, which is also what \<open>setAttribute\<close> does to a value that is not a string.\<close>

definition jsString :: "jsval \<Rightarrow> string" where
  "jsString v =
     (case v of Num x \<Rightarrow> numToString x | Str s \<Rightarrow> s | Bool b \<Rightarrow> if b then ''true'' else ''false'')"

subsection \<open>Arithmetic and comparison\<close>

fun js_lt :: "jsnum \<Rightarrow> jsnum \<Rightarrow> bool" where
  "js_lt (Fin x) (Fin y) = (x < y)"
| "js_lt NaN _ = False"
| "js_lt _ NaN = False"
| "js_lt PInf _ = False"
| "js_lt _ NInf = False"
| "js_lt _ _ = True"

definition js_gt :: "jsnum \<Rightarrow> jsnum \<Rightarrow> bool" where
  "js_gt a b = js_lt b a"

definition js_mul :: "jsnum \<Rightarrow> jsnum \<Rightarrow> jsnum" where
  "js_mul a b =
     (if a = NaN \<or> b = NaN then NaN
      else case (a, b) of
             (Fin x, Fin y) \<Rightarrow> Fin (x * y)
           | _ \<Rightarrow> if a = Fin 0 \<or> b = Fin 0 then NaN
                  else if js_lt a (Fin 0) = js_lt b (Fin 0) then PInf else NInf)"

definition js_add :: "jsnum \<Rightarrow> jsnum \<Rightarrow> jsnum" where
  "js_add a b =
     (if a = NaN \<or> b = NaN then NaN
      else case (a, b) of
             (Fin x, Fin y) \<Rightarrow> Fin (x + y)
           | (Fin x, _) \<Rightarrow> b
           | (_, Fin y) \<Rightarrow> a
           | _ \<Rightarrow> if a = b then a else NaN)"

text \<open>\<open>Math.max\<close> and \<open>Math.min\<close> of two numbers.\<close>

definition js_max :: "jsnum \<Rightarrow> jsnum \<Rightarrow> jsnum" where
  "js_max a b = (if a = NaN \<or> b = NaN then NaN else if js_lt a b then b else a)"

definition js_min :: "jsnum \<Rightarrow> jsnum \<Rightarrow> jsnum" where
  "js_min a b = (if a = NaN \<or> b = NaN then NaN else if js_lt b a then b else a)"

text \<open>A number is falsy when it is zero or \<open>NaN\<close>; a string when it is empty.\<close>

definition truthyNum :: "jsnum \<Rightarrow> bool" where
  "truthyNum x = (x \<noteq> NaN \<and> x \<noteq> Fin 0)"

definition orElse :: "string option \<Rightarrow> string \<Rightarrow> string" where
  "orElse v d = (case v of None \<Rightarrow> d | Some s \<Rightarrow> if s = [] then d else s)"

section \<open>The overlay element\<close>

text \<open>
  The property names of the configuration object. The source indexes the object with
  strings taken from a fixed table; here each name is a constructor, and \<open>keyName\<close> gives
  its spelling.
\<close>

datatype key =
  K_scanOpacity | K_scanlineColor | K_hairlineOpacity | K_fringeOpacity | K_fringeDominant
  | K_fringeJitterSpeed | K_fringeJitterAmount | K_noiseOpacity | K_barrel | K_scanSize
  | K_scanDensity | K_phosphorSize | K_phosphorOpacityRed | K_phosphorOpacityGreen | K_phosphorOpacityBlue
  | K_scanlineMask | K_bloom | K_bloomColor | K_bloomRadius | K_bloomDecay
  | K_bloomBlur | K_bloomBrightness | K_colorPaletteShift | K_vignetteOpacity | K_vignetteRadius
  | K_vignetteFeather | K_vignetteColorLight | K_vignetteColorDark | K_reflectionOpacity | K_reflectionSize
  | K_reflectionPositionX | K_reflectionPositionY | K_reflection | K_flickerOpacity | K_interlaceSpeed
  | K_flicker | K_controls | K_mode | K_applyBarrelTo | K_legacyInterlace
  | K_legacyBloom

definition keyName :: "key \<Rightarrow> string" where
  "keyName k =
     (case k of
        K_scanOpacity \<Rightarrow> ''scanOpacity''
      | K_scanlineColor \<Rightarrow> ''scanlineColor''
      | K_hairlineOpacity \<Rightarrow> ''hairlineOpacity''
      | K_fringeOpacity \<Rightarrow> ''fringeOpacity''
      | K_fringeDominant \<Rightarrow> ''fringeDominant''
      | K_fringeJitterSpeed \<Rightarrow> ''fringeJitterSpeed''
      | K_fringeJitterAmount \<Rightarrow> ''fringeJitterAmount''
      | K_noiseOpacity \<Rightarrow> ''noiseOpacity''
      | K_barrel \<Rightarrow> ''barrel''
      | K_scanSize \<Rightarrow> ''scanSize''
      | K_scanDensity \<Rightarrow> ''scanDensity''
      | K_phosphorSize \<Rightarrow> ''phosphorSize''
      | K_phosphorOpacityRed \<Rightarrow> ''phosphorOpacityRed''
      | K_phosphorOpacityGreen \<Rightarrow> ''phosphorOpacityGreen''
      | K_phosphorOpacityBlue \<Rightarrow> ''phosphorOpacityBlue''
      | K_scanlineMask \<Rightarrow> ''scanlineMask''
      | K_bloom \<Rightarrow> ''bloom''
      | K_bloomColor \<Rightarrow> ''bloomColor''
      | K_bloomRadius \<Rightarrow> ''bloomRadius''
      | K_bloomDecay \<Rightarrow> ''bloomDecay''
      | K_bloomBlur \<Rightarrow> ''bloomBlur''
      | K_bloomBrightness \<Rightarrow> ''bloomBrightness''
      | K_colorPaletteShift \<Rightarrow> ''colorPaletteShift''
      | K_vignetteOpacity \<Rightarrow> ''vignetteOpacity''
      | K_vignetteRadius \<Rightarrow> ''vignetteRadius''
      | K_vignetteFeather \<Rightarrow> ''vignetteFeather''
      | K_vignetteColorLight \<Rightarrow> ''vignetteColorLight''
      | K_vignetteColorDark \<Rightarrow> ''vignetteColorDark''
      | K_reflectionOpacity \<Rightarrow> ''reflectionOpacity''
      | K_reflectionSize \<Rightarrow> ''reflectionSize''
      | K_reflectionPositionX \<Rightarrow> ''reflectionPositionX''
      | K_reflectionPositionY \<Rightarrow> ''reflectionPositionY''
      | K_reflection \<Rightarrow> ''reflection''
      | K_flickerOpacity \<Rightarrow> ''flickerOpacity''
      | K_interlaceSpeed \<Rightarrow> ''interlaceSpeed''
      | K_flicker \<Rightarrow> ''flicker''
      | K_controls \<Rightarrow> ''controls''
      | K_mode \<Rightarrow> ''mode''
      | K_applyBarrelTo \<Rightarrow> ''applyBarrelTo''
      | K_legacyInterlace \<Rightarrow> ''legacyInterlace''
      | K_legacyBloom \<Rightarrow> ''legacyBloom'')"

text \<open>
  The configuration object of \<open>CRTOverlay\<close>, with the fields and defaults of the
  constructor. \<open>scanlineMask\<close> holds a string, but the attribute callback can also store a
  number there, so its type allows both.
\<close>

record config =
  scanOpacity :: "jsnum"
  scanlineColor :: "jsnum"
  hairlineOpacity :: "jsnum"
  fringeOpacity :: "jsnum"
  fringeDominant :: "jsnum"
  fringeJitterSpeed :: "jsnum"
  fringeJitterAmount :: "jsnum"
  noiseOpacity :: "jsnum"
  barrel :: "jsnum"
  scanSize :: "jsnum"
  scanDensity :: "jsnum"
  phosphorSize :: "jsnum"
  phosphorOpacityRed :: "jsnum"
  phosphorOpacityGreen :: "jsnum"
  phosphorOpacityBlue :: "jsnum"
  scanlineMask :: "jsval"
  bloom :: "jsnum"
  bloomColor :: "string"
  bloomRadius :: "jsnum"
  bloomDecay :: "jsnum"
  bloomBlur :: "jsnum"
  bloomBrightness :: "jsnum"
  colorPaletteShift :: "jsnum"
  vignetteOpacity :: "jsnum"
  vignetteRadius :: "jsnum"
  vignetteFeather :: "jsnum"
  vignetteColorLight :: "jsnum"
  vignetteColorDark :: "jsnum"
  reflectionOpacity :: "jsnum"
  reflectionSize :: "jsnum"
  reflectionPositionX :: "jsnum"
  reflectionPositionY :: "jsnum"
  reflection :: "bool"
  flickerOpacity :: "jsnum"
  interlaceSpeed :: "jsnum"
  flicker :: "bool"
  controls :: "bool"
  mode :: "jsnum"
  applyBarrelTo :: "string option"
  legacyInterlace :: "bool"
  legacyBloom :: "bool"

definition defaultConfig :: config where
  "defaultConfig = \<lparr>
     scanOpacity = Fin 0.85,
     scanlineColor = Fin 0,
     hairlineOpacity = Fin 0.18,
     fringeOpacity = Fin 0.25,
     fringeDominant = Fin 0.5,
     fringeJitterSpeed = Fin 3.2,
     fringeJitterAmount = Fin 2,
     noiseOpacity = Fin 0.22,
     barrel = Fin 2,
     scanSize = Fin 4,
     scanDensity = Fin 2,
     phosphorSize = Fin 1,
     phosphorOpacityRed = Fin 0.15,
     phosphorOpacityGreen = Fin 0.15,
     phosphorOpacityBlue = Fin 0.15,
     scanlineMask = Str ''shadow-mask'',
     bloom = Fin 0.15,
     bloomColor = ''white'',
     bloomRadius = Fin 1400,
     bloomDecay = Fin 55,
     bloomBlur = Fin 10,
     bloomBrightness = Fin 1.2,
     colorPaletteShift = Fin 0,
     vignetteOpacity = Fin 0.5,
     vignetteRadius = Fin 85,
     vignetteFeather = Fin 40,
     vignetteColorLight = Fin 0.35,
     vignetteColorDark = Fin 0.7,
     reflectionOpacity = Fin 0.03,
     reflectionSize = Fin 1400,
     reflectionPositionX = Fin 50,
     reflectionPositionY = Fin 10,
     reflection = False,
     flickerOpacity = Fin 0.08,
     interlaceSpeed = Fin 0.08,
     flicker = True,
     controls = False,
     mode = Fin 1,
     applyBarrelTo = None,
     legacyInterlace = True,
     legacyBloom = True \<rparr>"

text \<open>The style of the external bloom layer, as far as the component writes it.\<close>

record bloom_layer =
  bVisibility :: string
  bZIndex :: string
  backdropFilter :: string
  webkitBackdropFilter :: string

text \<open>
  The element with the page state it writes: its attributes, its instance id (random in
  the source, generated once), whether the shadow tree has been rendered, its own inline style, the external bloom layer (absent until created), the
  text of the injected global style element (absent until created), the per-instance filter
  chain variable on the document element, and whether the body carries the per-instance
  filtered class. The custom properties of the shadow container, the scanline mask style,
  the controls panel, events and timers are left out: nothing reads them back into the
  configuration.
\<close>

record element =
  config :: config
  attrs :: "string \<Rightarrow> string option"
  uid :: string
  rendered :: bool
  initialized :: bool
  styleVisibility :: string
  stylePointerEvents :: string
  styleZIndex :: string
  externalBloomLayer :: "bloom_layer option"
  globalStyle :: "string option"
  filterChainVar :: "string option"
  bodyFiltered :: bool

definition constructor :: "string \<Rightarrow> element" where
  "constructor u = \<lparr>
     config = defaultConfig,
     attrs = (\<lambda>_. None),
     uid = u,
     rendered = False,
     initialized = False,
     styleVisibility = [],
     stylePointerEvents = [],
     styleZIndex = [],
     externalBloomLayer = None,
     globalStyle = None,
     filterChainVar = None,
     bodyFiltered = False \<rparr>"

definition observedAttributes :: "string list" where
  "observedAttributes = [
     ''scan-opacity'', ''hairline-opacity'', ''fringe-opacity'', ''fringe-dominant'', ''noise-opacity'',
     ''barrel'', ''scan-size'', ''scan-density'', ''phosphor-size'', ''bloom'',
     ''bloom-color'', ''bloom-radius'', ''bloom-decay'', ''bloom-blur'', ''scanline-color'',
     ''vignette-opacity'', ''vignette-radius'', ''vignette-feather'', ''flicker-opacity'', ''color-palette-shift'',
     ''interlace-speed'', ''reflection-opacity'', ''reflection-size'', ''reflection-position-x'', ''reflection-position-y'',
     ''flicker'', ''reflection'', ''controls'', ''mode'', ''apply-barrel-to'']"

text \<open>The table \<open>map\<close> of the attribute callback, from attribute name to configuration key.\<close>

definition attrMap :: "(string \<times> key) list" where
  "attrMap = [
     (''scan-opacity'', K_scanOpacity), (''scanline-color'', K_scanlineColor),
     (''hairline-opacity'', K_hairlineOpacity), (''fringe-opacity'', K_fringeOpacity),
     (''fringe-dominant'', K_fringeDominant), (''fringe-jitter-speed'', K_fringeJitterSpeed),
     (''fringe-jitter-amount'', K_fringeJitterAmount), (''noise-opacity'', K_noiseOpacity),
     (''barrel'', K_barrel), (''scan-size'', K_scanSize),
     (''scan-density'', K_scanDensity), (''phosphor-size'', K_phosphorSize),
     (''phosphor-opacity-red'', K_phosphorOpacityRed), (''phosphor-opacity-green'', K_phosphorOpacityGreen),
     (''phosphor-opacity-blue'', K_phosphorOpacityBlue), (''bloom'', K_bloom),
     (''bloom-color'', K_bloomColor), (''bloom-radius'', K_bloomRadius),
     (''bloom-decay'', K_bloomDecay), (''bloom-blur'', K_bloomBlur),
     (''bloom-brightness'', K_bloomBrightness), (''vignette-opacity'', K_vignetteOpacity),
     (''vignette-radius'', K_vignetteRadius), (''vignette-feather'', K_vignetteFeather),
     (''vignette-color-light'', K_vignetteColorLight), (''vignette-color-dark'', K_vignetteColorDark),
     (''reflection-opacity'', K_reflectionOpacity), (''reflection-size'', K_reflectionSize),
     (''reflection-position-x'', K_reflectionPositionX), (''reflection-position-y'', K_reflectionPositionY),
     (''scanline-mask'', K_scanlineMask), (''flicker-opacity'', K_flickerOpacity),
     (''color-palette-shift'', K_colorPaletteShift), (''interlace-speed'', K_interlaceSpeed),
     (''flicker'', K_flicker), (''reflection'', K_reflection),
     (''controls'', K_controls), (''mode'', K_mode),
     (''apply-barrel-to'', K_applyBarrelTo)]"

text \<open>\<open>this.config[key] = numeric\<close> for the keys that reach the last branch of the callback.\<close>

definition setNum :: "key \<Rightarrow> jsnum \<Rightarrow> config \<Rightarrow> config" where
  "setNum k v c =
     (case k of
        K_scanOpacity \<Rightarrow> c\<lparr>scanOpacity := v\<rparr>
      | K_scanlineColor \<Rightarrow> c\<lparr>scanlineColor := v\<rparr>
      | K_hairlineOpacity \<Rightarrow> c\<lparr>hairlineOpacity := v\<rparr>
      | K_fringeOpacity \<Rightarrow> c\<lparr>fringeOpacity := v\<rparr>
      | K_fringeDominant \<Rightarrow> c\<lparr>fringeDominant := v\<rparr>
      | K_fringeJitterSpeed \<Rightarrow> c\<lparr>fringeJitterSpeed := v\<rparr>
      | K_fringeJitterAmount \<Rightarrow> c\<lparr>fringeJitterAmount := v\<rparr>
      | K_noiseOpacity \<Rightarrow> c\<lparr>noiseOpacity := v\<rparr>
      | K_barrel \<Rightarrow> c\<lparr>barrel := v\<rparr>
      | K_scanSize \<Rightarrow> c\<lparr>scanSize := v\<rparr>
      | K_scanDensity \<Rightarrow> c\<lparr>scanDensity := v\<rparr>
      | K_phosphorSize \<Rightarrow> c\<lparr>phosphorSize := v\<rparr>
      | K_phosphorOpacityRed \<Rightarrow> c\<lparr>phosphorOpacityRed := v\<rparr>
      | K_phosphorOpacityGreen \<Rightarrow> c\<lparr>phosphorOpacityGreen := v\<rparr>
      | K_phosphorOpacityBlue \<Rightarrow> c\<lparr>phosphorOpacityBlue := v\<rparr>
      | K_bloom \<Rightarrow> c\<lparr>bloom := v\<rparr>
      | K_bloomRadius \<Rightarrow> c\<lparr>bloomRadius := v\<rparr>
      | K_bloomDecay \<Rightarrow> c\<lparr>bloomDecay := v\<rparr>
      | K_bloomBlur \<Rightarrow> c\<lparr>bloomBlur := v\<rparr>
      | K_bloomBrightness \<Rightarrow> c\<lparr>bloomBrightness := v\<rparr>
      | K_vignetteOpacity \<Rightarrow> c\<lparr>vignetteOpacity := v\<rparr>
      | K_vignetteRadius \<Rightarrow> c\<lparr>vignetteRadius := v\<rparr>
      | K_vignetteFeather \<Rightarrow> c\<lparr>vignetteFeather := v\<rparr>
      | K_vignetteColorLight \<Rightarrow> c\<lparr>vignetteColorLight := v\<rparr>
      | K_vignetteColorDark \<Rightarrow> c\<lparr>vignetteColorDark := v\<rparr>
      | K_reflectionOpacity \<Rightarrow> c\<lparr>reflectionOpacity := v\<rparr>
      | K_reflectionSize \<Rightarrow> c\<lparr>reflectionSize := v\<rparr>
      | K_reflectionPositionX \<Rightarrow> c\<lparr>reflectionPositionX := v\<rparr>
      | K_reflectionPositionY \<Rightarrow> c\<lparr>reflectionPositionY := v\<rparr>
      | K_scanlineMask \<Rightarrow> c\<lparr>scanlineMask := Num v\<rparr>
      | K_flickerOpacity \<Rightarrow> c\<lparr>flickerOpacity := v\<rparr>
      | K_colorPaletteShift \<Rightarrow> c\<lparr>colorPaletteShift := v\<rparr>
      | K_interlaceSpeed \<Rightarrow> c\<lparr>interlaceSpeed := v\<rparr>
      | _ \<Rightarrow> c)"

text \<open>\<open>this.config[key] = newValue !== null\<close> for the three presence attributes.\<close>

definition setBool :: "key \<Rightarrow> bool \<Rightarrow> config \<Rightarrow> config" where
  "setBool k b c =
     (case k of
        K_flicker \<Rightarrow> c\<lparr>flicker := b\<rparr>
      | K_reflection \<Rightarrow> c\<lparr>reflection := b\<rparr>
      | K_controls \<Rightarrow> c\<lparr>controls := b\<rparr>
      | _ \<Rightarrow> c)"

section \<open>Projection of the configuration onto the page\<close>

definition setLayer :: "(bloom_layer \<Rightarrow> bloom_layer) \<Rightarrow> element \<Rightarrow> element" where
  "setLayer f el = el\<lparr>externalBloomLayer := map_option f (externalBloomLayer el)\<rparr>"

definition updateModeZIndex :: "element \<Rightarrow> element" where
  "updateModeZIndex el =
     (if mode (config el) = Fin 0
      then setLayer (\<lambda>l. l\<lparr>bVisibility := ''hidden''\<rparr>)
             (el\<lparr>styleVisibility := ''hidden'', stylePointerEvents := ''none''\<rparr>)
      else
        (let zIndex = (if mode (config el) = Fin 1 then Fin (- 1)
                       else if mode (config el) = Fin 2 then Fin 9999
                       else Fin (- 1))
         in setLayer (\<lambda>l. l\<lparr>bVisibility := ''visible'', bZIndex := numToString zIndex\<rparr>)
              (el\<lparr>styleVisibility := ''visible'', stylePointerEvents := ''none'',
                  styleZIndex := numToString zIndex\<rparr>)))"

definition barrelUrl :: "element \<Rightarrow> string" where
  "barrelUrl el = ''url(#crt-barrel-'' @ uid el @ '')''"

text \<open>The local \<open>hueFilter\<close> of \<open>applyGlobalFilters\<close>: the hue rotation by the palette shift.\<close>

definition hueFilter :: "config \<Rightarrow> string" where
  "hueFilter c = ''hue-rotate('' @ numToString (colorPaletteShift c) @ ''deg)''"

text \<open>
  \<open>applyGlobalFilters(barrelFilterValue)\<close>. The locals are \<open>barrelStr\<close> (the source's
  \<open>barrel\<close>), \<open>target\<close> and \<open>filterChain\<close>.
\<close>

definition applyGlobalFilters :: "string option \<Rightarrow> element \<Rightarrow> element" where
  "applyGlobalFilters barrelFilterValue el =
     (let c = config el;
          varName = ''--crt-filter-chain-'' @ uid el;
          bodyClass = ''crt-filtered-'' @ uid el;
          barrelStr = orElse barrelFilterValue
                        (if js_gt (barrel c) (Fin 0) \<and> js_gt (mode c) (Fin 0)
                         then barrelUrl el else ''none'');
          target = (if mode c = Fin 1 then Some (orElse (applyBarrelTo c) ''.bg-image'')
                    else if mode c = Fin 2
                    then Some (orElse (applyBarrelTo c)
                           ''> *:not(crt-overlay):not(.crt-controls-portal):not(.crt-external-bloom)'')
                    else None);
          filterChain = (if colorPaletteShift c \<noteq> Fin 0
                         then (if barrelStr = ''none'' then hueFilter c
                               else barrelStr @ '' '' @ hueFilter c)
                         else barrelStr);
          css = (case globalStyle el of
                   None \<Rightarrow> None
                 | Some old \<Rightarrow>
                     (case target of
                        Some t \<Rightarrow> Some (''body.'' @ bodyClass @ '' '' @ t @ '' { filter: var(''
                                          @ varName @ '', none) !important; }'')
                      | None \<Rightarrow> Some []))
      in el\<lparr>filterChainVar := Some filterChain,
            globalStyle := css,
            bodyFiltered := ((js_gt (barrel c) (Fin 0) \<or> colorPaletteShift c \<noteq> Fin 0)
                             \<and> js_gt (mode c) (Fin 0))\<rparr>)"

text \<open>The local \<open>shouldApplyBarrel\<close> of \<open>updateBarrel\<close>.\<close>

definition shouldApplyBarrel :: "config \<Rightarrow> bool" where
  "shouldApplyBarrel c = (js_gt (barrel c) (Fin 0) \<and> js_gt (mode c) (Fin 0))"

definition updateBarrel :: "element \<Rightarrow> element" where
  "updateBarrel el =
     (let filterValue = (if shouldApplyBarrel (config el) then barrelUrl el else ''none'')
      in applyGlobalFilters (Some filterValue) el)"

text \<open>
  The two numbers that \<open>updateExternalBloomLayer\<close> puts into the backdrop filter: the blur
  after \<open>Math.min\<close> and the brightness. There are none below the bloom threshold.
\<close>

definition bloomApprox :: "config \<Rightarrow> (jsnum \<times> jsnum) option" where
  "bloomApprox c =
     (let b = bloom c
      in if js_lt b (Fin 0.05) then None
         else
           (let blurPx = js_mul (bloomBlur c) (js_max (Fin 0.15) b);
                bright = js_add (Fin 1) (js_mul (js_mul b (bloomBrightness c)) (Fin 0.4))
            in Some (js_min blurPx (Fin 1.5), bright)))"

definition updateExternalBloomLayer :: "element \<Rightarrow> element" where
  "updateExternalBloomLayer el =
     (case externalBloomLayer el of
        None \<Rightarrow> el
      | Some _ \<Rightarrow>
          (let el1 = updateModeZIndex el;
               f = (case bloomApprox (config el) of
                      None \<Rightarrow> ''none''
                    | Some (blur, bright) \<Rightarrow>
                        ''blur('' @ numToString blur @ ''px) brightness('' @ numToString bright @ '')'')
           in setLayer (\<lambda>l. l\<lparr>backdropFilter := f, webkitBackdropFilter := f\<rparr>) el1))"

definition updateStyles :: "element \<Rightarrow> element" where
  "updateStyles el =
     (if \<not> rendered el then el
      else applyGlobalFilters None (updateExternalBloomLayer (updateModeZIndex el)))"

definition ensureGlobalFilterStyle :: "element \<Rightarrow> element" where
  "ensureGlobalFilterStyle el =
     (case globalStyle el of Some _ \<Rightarrow> el | None \<Rightarrow> el\<lparr>globalStyle := Some []\<rparr>)"

definition createExternalBloomLayer :: "element \<Rightarrow> element" where
  "createExternalBloomLayer el =
     (case externalBloomLayer el of
        Some _ \<Rightarrow> el
      | None \<Rightarrow>
          updateExternalBloomLayer
            (el\<lparr>externalBloomLayer :=
                   Some \<lparr>bVisibility = [], bZIndex = [], backdropFilter = [],
                         webkitBackdropFilter = []\<rparr>\<rparr>))"

definition connectedCallback :: "element \<Rightarrow> element" where
  "connectedCallback el =
     (if initialized el then el
      else
        (let el1 = el\<lparr>rendered := True\<rparr>;
             el2 = ensureGlobalFilterStyle el1;
             el3 = createExternalBloomLayer el2;
             el4 = updateStyles el3;
             el5 = updateModeZIndex el4;
             el6 = updateBarrel el5
         in el6\<lparr>initialized := True\<rparr>))"

section \<open>Attributes\<close>

text \<open>
  \<open>attributeChangedCallback(name, oldValue, newValue)\<close>. A value that fails to parse leaves
  the key as it is (the source assigns the key its own value).
\<close>

definition attributeChangedCallback ::
  "string \<Rightarrow> string option \<Rightarrow> string option \<Rightarrow> element \<Rightarrow> element" where
  "attributeChangedCallback name oldValue newValue el =
     (if oldValue = newValue then el
      else
        (case map_of attrMap name of
           None \<Rightarrow> el
         | Some key \<Rightarrow>
             (let c = config el;
                  c1 = (if name = ''flicker'' \<or> name = ''controls'' \<or> name = ''reflection''
                        then setBool key (newValue \<noteq> None) c
                        else if name = ''apply-barrel-to''
                        then c\<lparr>applyBarrelTo :=
                                 (case newValue of None \<Rightarrow> None
                                  | Some s \<Rightarrow> if s = [] then None else Some s)\<rparr>
                        else if name = ''mode''
                        then c\<lparr>mode := (let n = parseInt10 (toStr newValue)
                                         in if truthyNum n then n else Fin 1)\<rparr>
                        else if name = ''bloom-color''
                        then c\<lparr>bloomColor := orElse newValue ''white''\<rparr>
                        else (let numeric = parseFloat (toStr newValue)
                              in if numeric = NaN then c else setNum key numeric c));
                  el1 = el\<lparr>config := c1\<rparr>
              in if rendered el1
                 then
                   (let el2 = updateStyles el1;
                        el3 = (if name = ''barrel'' then updateBarrel el2 else el2);
                        el4 = (if name = ''color-palette-shift''
                               then applyGlobalFilters None el3 else el3);
                        el5 = (if name = ''mode'' then updateModeZIndex el4 else el4)
                    in if name = ''apply-barrel-to'' then applyGlobalFilters None el5 else el5)
                 else el1)))"

text \<open>
  The platform's \<open>setAttribute\<close> on a custom element: the attribute is stored, and the
  callback runs with the old and the new value when the name is an observed attribute,
  also when both values are equal. The name is taken to be a valid attribute name in lower
  case, as every name is that the component passes.
\<close>

definition setAttribute :: "string \<Rightarrow> string \<Rightarrow> element \<Rightarrow> element" where
  "setAttribute name v el =
     (let oldValue = attrs el name;
          el1 = el\<lparr>attrs := (attrs el)(name := Some v)\<rparr>
      in if name \<in> set observedAttributes
         then attributeChangedCallback name oldValue (Some v) el1
         else el1)"

text \<open>The key to attribute name conversion: a hyphen before each capital, then lower case.\<close>

definition isUpper :: "char \<Rightarrow> bool" where
  "isUpper ch = (65 \<le> (of_char ch :: int) \<and> (of_char ch :: int) \<le> 90)"

definition toLower :: "char \<Rightarrow> char" where
  "toLower ch = (if isUpper ch then char_of ((of_char ch :: int) + 32) else ch)"

definition kebab :: "string \<Rightarrow> string" where
  "kebab key = map toLower (concat (map (\<lambda>ch. if isUpper ch then [CHR ''-'', ch] else [ch]) key))"

definition updateConfig :: "(string \<times> jsval) list \<Rightarrow> element \<Rightarrow> element" where
  "updateConfig cfg el = foldl (\<lambda>e (k, v). setAttribute (kebab k) (jsString v) e) el cfg"

section \<open>Presets\<close>

text \<open>
  The object literals of \<open>getPreset\<close>, each as the list of its entries in source order.
\<close>

type_synonym preset = "(key \<times> jsval) list"

definition preset_default :: preset where
  "preset_default = [
     (K_scanOpacity, Num (Fin 0.85)), (K_scanlineColor, Num (Fin 0)),
     (K_hairlineOpacity, Num (Fin 0.18)), (K_fringeOpacity, Num (Fin 0.25)),
     (K_fringeDominant, Num (Fin 0.5)), (K_fringeJitterSpeed, Num (Fin 3.2)),
     (K_fringeJitterAmount, Num (Fin 2)), (K_noiseOpacity, Num (Fin 0.22)),
     (K_barrel, Num (Fin 2)), (K_scanSize, Num (Fin 4)), (K_scanDensity, Num (Fin 2)),
     (K_phosphorSize, Num (Fin 1)), (K_phosphorOpacityRed, Num (Fin 0.15)),
     (K_phosphorOpacityGreen, Num (Fin 0.15)), (K_phosphorOpacityBlue, Num (Fin 0.15)),
     (K_bloom, Num (Fin 0.15)), (K_bloomColor, Str ''white''), (K_bloomRadius, Num (Fin 1400)),
     (K_bloomDecay, Num (Fin 55)), (K_bloomBlur, Num (Fin 10)),
     (K_bloomBrightness, Num (Fin 1.2)), (K_vignetteOpacity, Num (Fin 0.5)),
     (K_vignetteRadius, Num (Fin 85)), (K_vignetteFeather, Num (Fin 40)),
     (K_vignetteColorLight, Num (Fin 0.35)), (K_vignetteColorDark, Num (Fin 0.7)),
     (K_reflectionOpacity, Num (Fin 0.03)), (K_reflectionSize, Num (Fin 1400)),
     (K_reflectionPositionX, Num (Fin 50)), (K_reflectionPositionY, Num (Fin 10)),
     (K_reflection, Bool False), (K_scanlineMask, Str ''shadow-mask''),
     (K_flickerOpacity, Num (Fin 0.08)), (K_flicker, Bool True),
     (K_colorPaletteShift, Num (Fin 0)), (K_interlaceSpeed, Num (Fin 0.08))]"

definition preset_trinitron_fd :: preset where
  "preset_trinitron_fd = [
     (K_scanOpacity, Num (Fin 0.72)), (K_scanlineColor, Num (Fin 0.08)),
     (K_hairlineOpacity, Num (Fin 0.16)), (K_fringeOpacity, Num (Fin 0.12)),
     (K_fringeDominant, Num (Fin 0.4)), (K_fringeJitterSpeed, Num (Fin 2.8)),
     (K_fringeJitterAmount, Num (Fin 1.5)), (K_noiseOpacity, Num (Fin 0.1)),
     (K_barrel, Num (Fin 1.8)), (K_scanSize, Num (Fin 3.5)), (K_scanDensity, Num (Fin 2.2)),
     (K_phosphorSize, Num (Fin 0.9)), (K_phosphorOpacityRed, Num (Fin 0.14)),
     (K_phosphorOpacityGreen, Num (Fin 0.15)), (K_phosphorOpacityBlue, Num (Fin 0.13)),
     (K_bloom, Num (Fin 0.24)), (K_bloomColor, Str ''white''), (K_bloomRadius, Num (Fin 1350)),
     (K_bloomDecay, Num (Fin 50)), (K_bloomBlur, Num (Fin 9)),
     (K_bloomBrightness, Num (Fin 1.3)), (K_vignetteOpacity, Num (Fin 0.88)),
     (K_vignetteRadius, Num (Fin 82)), (K_vignetteFeather, Num (Fin 35)),
     (K_vignetteColorLight, Num (Fin 0.3)), (K_vignetteColorDark, Num (Fin 0.65)),
     (K_reflectionOpacity, Num (Fin 0.025)), (K_reflectionSize, Num (Fin 1350)),
     (K_reflectionPositionX, Num (Fin 50)), (K_reflectionPositionY, Num (Fin 10)),
     (K_reflection, Bool False), (K_scanlineMask, Str ''aperture-grille''),
     (K_flickerOpacity, Num (Fin 0.05)), (K_flicker, Bool True),
     (K_colorPaletteShift, Num (Fin 0)), (K_interlaceSpeed, Num (Fin 0.08))]"

definition preset_professional_monitor :: preset where
  "preset_professional_monitor = [
     (K_scanOpacity, Num (Fin 0.92)), (K_scanlineColor, Num (Fin 0.02)),
     (K_hairlineOpacity, Num (Fin 0.14)), (K_fringeOpacity, Num (Fin 0.18)),
     (K_fringeDominant, Num (Fin 0.6)), (K_fringeJitterSpeed, Num (Fin 3.5)),
     (K_fringeJitterAmount, Num (Fin 2.5)), (K_noiseOpacity, Num (Fin 0.32)),
     (K_barrel, Num (Fin 2.6)), (K_scanSize, Num (Fin 4.5)), (K_scanDensity, Num (Fin 1.8)),
     (K_phosphorSize, Num (Fin 1.1)), (K_phosphorOpacityRed, Num (Fin 0.16)),
     (K_phosphorOpacityGreen, Num (Fin 0.14)), (K_phosphorOpacityBlue, Num (Fin 0.15)),
     (K_bloom, Num (Fin 0.09)), (K_bloomColor, Str ''white''), (K_bloomRadius, Num (Fin 1300)),
     (K_bloomDecay, Num (Fin 60)), (K_bloomBlur, Num (Fin 8)), (K_bloomBrightness, Num (Fin 1)),
     (K_vignetteOpacity, Num (Fin 0.94)), (K_vignetteRadius, Num (Fin 88)),
     (K_vignetteFeather, Num (Fin 38)), (K_vignetteColorLight, Num (Fin 0.4)),
     (K_vignetteColorDark, Num (Fin 0.75)), (K_reflectionOpacity, Num (Fin 0.035)),
     (K_reflectionSize, Num (Fin 1300)), (K_reflectionPositionX, Num (Fin 50)),
     (K_reflectionPositionY, Num (Fin 10)), (K_reflection, Bool False),
     (K_scanlineMask, Str ''shadow-mask''), (K_flickerOpacity, Num (Fin 0.12)),
     (K_flicker, Bool True), (K_colorPaletteShift, Num (Fin 0)),
     (K_interlaceSpeed, Num (Fin 0.08))]"

definition preset_monitor_1084s :: preset where
  "preset_monitor_1084s = [
     (K_scanOpacity, Num (Fin 0.88)), (K_scanlineColor, Num (Fin 0.06)),
     (K_hairlineOpacity, Num (Fin 0.21)), (K_fringeOpacity, Num (Fin 0.32)),
     (K_fringeDominant, Num (Fin 0.65)), (K_fringeJitterSpeed, Num (Fin 3.8)),
     (K_fringeJitterAmount, Num (Fin 3)), (K_noiseOpacity, Num (Fin 0.35)),
     (K_barrel, Num (Fin 3.4)), (K_scanSize, Num (Fin 6)), (K_scanDensity, Num (Fin 1.6)),
     (K_phosphorSize, Num (Fin 1.4)), (K_phosphorOpacityRed, Num (Fin 0.18)),
     (K_phosphorOpacityGreen, Num (Fin 0.15)), (K_phosphorOpacityBlue, Num (Fin 0.12)),
     (K_bloom, Num (Fin 0.2)), (K_bloomColor, Str ''amber''), (K_bloomRadius, Num (Fin 1450)),
     (K_bloomDecay, Num (Fin 52)), (K_bloomBlur, Num (Fin 12)),
     (K_bloomBrightness, Num (Fin 1.4)), (K_vignetteOpacity, Num (Fin 0.87)),
     (K_vignetteRadius, Num (Fin 84)), (K_vignetteFeather, Num (Fin 42)),
     (K_vignetteColorLight, Num (Fin 0.32)), (K_vignetteColorDark, Num (Fin 0.68)),
     (K_reflectionOpacity, Num (Fin 0.04)), (K_reflectionSize, Num (Fin 1450)),
     (K_reflectionPositionX, Num (Fin 50)), (K_reflectionPositionY, Num (Fin 10)),
     (K_reflection, Bool False), (K_scanlineMask, Str ''shadow-mask''),
     (K_flickerOpacity, Num (Fin 0.13)), (K_flicker, Bool True),
     (K_colorPaletteShift, Num (Fin 15)), (K_interlaceSpeed, Num (Fin 0.08))]"

definition preset_studio_display_crt :: preset where
  "preset_studio_display_crt = [
     (K_scanOpacity, Num (Fin 0.65)), (K_scanlineColor, Num (Fin 0.18)),
     (K_hairlineOpacity, Num (Fin 0.25)), (K_fringeOpacity, Num (Fin 0.1)),
     (K_fringeDominant, Num (Fin 0.35)), (K_fringeJitterSpeed, Num (Fin 2.5)),
     (K_fringeJitterAmount, Num (Fin 1)), (K_noiseOpacity, Num (Fin 0.06)),
     (K_barrel, Num (Fin 1.1)), (K_scanSize, Num (Fin 2.8)), (K_scanDensity, Num (Fin 2.8)),
     (K_phosphorSize, Num (Fin 0.65)), (K_phosphorOpacityRed, Num (Fin 0.13)),
     (K_phosphorOpacityGreen, Num (Fin 0.15)), (K_phosphorOpacityBlue, Num (Fin 0.14)),
     (K_bloom, Num (Fin 0.32)), (K_bloomColor, Str ''white''), (K_bloomRadius, Num (Fin 1250)),
     (K_bloomDecay, Num (Fin 65)), (K_bloomBlur, Num (Fin 14)),
     (K_bloomBrightness, Num (Fin 1.5)), (K_vignetteOpacity, Num (Fin 0.82)),
     (K_vignetteRadius, Num (Fin 80)), (K_vignetteFeather, Num (Fin 32)),
     (K_vignetteColorLight, Num (Fin 0.25)), (K_vignetteColorDark, Num (Fin 0.55)),
     (K_reflectionOpacity, Num (Fin 0.02)), (K_reflectionSize, Num (Fin 1250)),
     (K_reflectionPositionX, Num (Fin 50)), (K_reflectionPositionY, Num (Fin 10)),
     (K_reflection, Bool False), (K_scanlineMask, Str ''sharp''),
     (K_flickerOpacity, Num (Fin 0.03)), (K_flicker, Bool False),
     (K_colorPaletteShift, Num (Fin (- 5))), (K_interlaceSpeed, Num (Fin 0.12))]"

definition preset_arcade_crt :: preset where
  "preset_arcade_crt = [
     (K_scanOpacity, Num (Fin 0.95)), (K_scanlineColor, Num (Fin 0)),
     (K_hairlineOpacity, Num (Fin 0.13)), (K_fringeOpacity, Num (Fin 0.38)),
     (K_fringeDominant, Num (Fin 0.7)), (K_fringeJitterSpeed, Num (Fin 4.2)),
     (K_fringeJitterAmount, Num (Fin 3.5)), (K_noiseOpacity, Num (Fin 0.42)),
     (K_barrel, Num (Fin 4.8)), (K_scanSize, Num (Fin 7.5)), (K_scanDensity, Num (Fin 1.3)),
     (K_phosphorSize, Num (Fin 1.8)), (K_phosphorOpacityRed, Num (Fin 0.16)),
     (K_phosphorOpacityGreen, Num (Fin 0.15)), (K_phosphorOpacityBlue, Num (Fin 0.14)),
     (K_bloom, Num (Fin 0.32)), (K_bloomColor, Str ''white''), (K_bloomRadius, Num (Fin 1500)),
     (K_bloomDecay, Num (Fin 48)), (K_bloomBlur, Num (Fin 11)),
     (K_bloomBrightness, Num (Fin 1.1)), (K_vignetteOpacity, Num (Fin 0.93)),
     (K_vignetteRadius, Num (Fin 87)), (K_vignetteFeather, Num (Fin 40)),
     (K_vignetteColorLight, Num (Fin 0.38)), (K_vignetteColorDark, Num (Fin 0.72)),
     (K_reflectionOpacity, Num (Fin 0.045)), (K_reflectionSize, Num (Fin 1500)),
     (K_reflectionPositionX, Num (Fin 50)), (K_reflectionPositionY, Num (Fin 10)),
     (K_reflection, Bool False), (K_scanlineMask, Str ''soft''),
     (K_flickerOpacity, Num (Fin 0.16)), (K_flicker, Bool True),
     (K_colorPaletteShift, Num (Fin 0)), (K_interlaceSpeed, Num (Fin 0.08))]"

definition preset_amber_phosphor :: preset where
  "preset_amber_phosphor = [
     (K_scanOpacity, Num (Fin 0.78)), (K_scanlineColor, Num (Fin 0.22)),
     (K_hairlineOpacity, Num (Fin 0.2)), (K_fringeOpacity, Num (Fin 0.08)),
     (K_fringeDominant, Num (Fin 0.5)), (K_fringeJitterSpeed, Num (Fin 3)),
     (K_fringeJitterAmount, Num (Fin 1.5)), (K_noiseOpacity, Num (Fin 0.18)),
     (K_barrel, Num (Fin 2.1)), (K_scanSize, Num (Fin 4)), (K_scanDensity, Num (Fin 2)),
     (K_phosphorSize, Num (Fin 0.95)), (K_phosphorOpacityRed, Num (Fin 0.18)),
     (K_phosphorOpacityGreen, Num (Fin 0.12)), (K_phosphorOpacityBlue, Num (Fin 0.08)),
     (K_bloom, Num (Fin 0.22)), (K_bloomColor, Str ''amber''), (K_bloomRadius, Num (Fin 1400)),
     (K_bloomDecay, Num (Fin 54)), (K_bloomBlur, Num (Fin 11)),
     (K_bloomBrightness, Num (Fin 1.3)), (K_vignetteOpacity, Num (Fin 0.86)),
     (K_vignetteRadius, Num (Fin 84)), (K_vignetteFeather, Num (Fin 39)),
     (K_vignetteColorLight, Num (Fin 0.33)), (K_vignetteColorDark, Num (Fin 0.66)),
     (K_reflectionOpacity, Num (Fin 0.028)), (K_reflectionSize, Num (Fin 1400)),
     (K_reflectionPositionX, Num (Fin 50)), (K_reflectionPositionY, Num (Fin 10)),
     (K_reflection, Bool False), (K_scanlineMask, Str ''shadow-mask''),
     (K_flickerOpacity, Num (Fin 0.09)), (K_flicker, Bool True),
     (K_colorPaletteShift, Num (Fin 25)), (K_interlaceSpeed, Num (Fin 0.08))]"

definition preset_green_phosphor :: preset where
  "preset_green_phosphor = [
     (K_scanOpacity, Num (Fin 0.8)), (K_scanlineColor, Num (Fin 0.18)),
     (K_hairlineOpacity, Num (Fin 0.22)), (K_fringeOpacity, Num (Fin 0.08)),
     (K_fringeDominant, Num (Fin 0.5)), (K_fringeJitterSpeed, Num (Fin 3)),
     (K_fringeJitterAmount, Num (Fin 1.5)), (K_noiseOpacity, Num (Fin 0.2)),
     (K_barrel, Num (Fin 2.2)), (K_scanSize, Num (Fin 4)), (K_scanDensity, Num (Fin 2)),
     (K_phosphorSize, Num (Fin 0.95)), (K_phosphorOpacityRed, Num (Fin 0.08)),
     (K_phosphorOpacityGreen, Num (Fin 0.18)), (K_phosphorOpacityBlue, Num (Fin 0.08)),
     (K_bloom, Num (Fin 0.2)), (K_bloomColor, Str ''green''), (K_bloomRadius, Num (Fin 1380)),
     (K_bloomDecay, Num (Fin 56)), (K_bloomBlur, Num (Fin 10)),
     (K_bloomBrightness, Num (Fin 1.2)), (K_vignetteOpacity, Num (Fin 0.88)),
     (K_vignetteRadius, Num (Fin 85)), (K_vignetteFeather, Num (Fin 40)),
     (K_vignetteColorLight, Num (Fin 0.34)), (K_vignetteColorDark, Num (Fin 0.69)),
     (K_reflectionOpacity, Num (Fin 0.03)), (K_reflectionSize, Num (Fin 1380)),
     (K_reflectionPositionX, Num (Fin 50)), (K_reflectionPositionY, Num (Fin 10)),
     (K_reflection, Bool False), (K_scanlineMask, Str ''shadow-mask''),
     (K_flickerOpacity, Num (Fin 0.08)), (K_flicker, Bool True),
     (K_colorPaletteShift, Num (Fin 120)), (K_interlaceSpeed, Num (Fin 0.08))]"

definition preset_blue_phosphor :: preset where
  "preset_blue_phosphor = [
     (K_scanOpacity, Num (Fin 0.76)), (K_scanlineColor, Num (Fin 0.12)),
     (K_hairlineOpacity, Num (Fin 0.19)), (K_fringeOpacity, Num (Fin 0.1)),
     (K_fringeDominant, Num (Fin 0.45)), (K_fringeJitterSpeed, Num (Fin 2.8)),
     (K_fringeJitterAmount, Num (Fin 1.5)), (K_noiseOpacity, Num (Fin 0.16)),
     (K_barrel, Num (Fin 1.9)), (K_scanSize, Num (Fin 4)), (K_scanDensity, Num (Fin 2.1)),
     (K_phosphorSize, Num (Fin 0.9)), (K_phosphorOpacityRed, Num (Fin 0.08)),
     (K_phosphorOpacityGreen, Num (Fin 0.08)), (K_phosphorOpacityBlue, Num (Fin 0.18)),
     (K_bloom, Num (Fin 0.24)), (K_bloomColor, Str ''blue''), (K_bloomRadius, Num (Fin 1420)),
     (K_bloomDecay, Num (Fin 53)), (K_bloomBlur, Num (Fin 11)),
     (K_bloomBrightness, Num (Fin 1.35)), (K_vignetteOpacity, Num (Fin 0.89)),
     (K_vignetteRadius, Num (Fin 86)), (K_vignetteFeather, Num (Fin 41)),
     (K_vignetteColorLight, Num (Fin 0.36)), (K_vignetteColorDark, Num (Fin 0.71)),
     (K_reflectionOpacity, Num (Fin 0.032)), (K_reflectionSize, Num (Fin 1420)),
     (K_reflectionPositionX, Num (Fin 50)), (K_reflectionPositionY, Num (Fin 10)),
     (K_reflection, Bool False), (K_scanlineMask, Str ''shadow-mask''),
     (K_flickerOpacity, Num (Fin 0.07)), (K_flicker, Bool True),
     (K_colorPaletteShift, Num (Fin (- 40))), (K_interlaceSpeed, Num (Fin 0.08))]"

definition preset_vt220_terminal :: preset where
  "preset_vt220_terminal = [
     (K_scanOpacity, Num (Fin 0.82)), (K_scanlineColor, Num (Fin 0.15)),
     (K_hairlineOpacity, Num (Fin 0.24)), (K_fringeOpacity, Num (Fin 0.05)),
     (K_fringeDominant, Num (Fin 0.5)), (K_fringeJitterSpeed, Num (Fin 2.5)),
     (K_fringeJitterAmount, Num (Fin 1)), (K_noiseOpacity, Num (Fin 0.12)),
     (K_barrel, Num (Fin 0.8)), (K_scanSize, Num (Fin 3.2)), (K_scanDensity, Num (Fin 2.5)),
     (K_phosphorSize, Num (Fin 0.8)), (K_phosphorOpacityRed, Num (Fin 0.05)),
     (K_phosphorOpacityGreen, Num (Fin 0.18)), (K_phosphorOpacityBlue, Num (Fin 0.05)),
     (K_bloom, Num (Fin 0.15)), (K_bloomColor, Str ''green''), (K_bloomRadius, Num (Fin 1300)),
     (K_bloomDecay, Num (Fin 58)), (K_bloomBlur, Num (Fin 9)),
     (K_bloomBrightness, Num (Fin 1.1)), (K_vignetteOpacity, Num (Fin 0.85)),
     (K_vignetteRadius, Num (Fin 83)), (K_vignetteFeather, Num (Fin 36)),
     (K_vignetteColorLight, Num (Fin 0.28)), (K_vignetteColorDark, Num (Fin 0.6)),
     (K_reflectionOpacity, Num (Fin 0.02)), (K_reflectionSize, Num (Fin 1300)),
     (K_reflectionPositionX, Num (Fin 50)), (K_reflectionPositionY, Num (Fin 10)),
     (K_reflection, Bool False), (K_scanlineMask, Str ''sharp''),
     (K_flickerOpacity, Num (Fin 0.06)), (K_flicker, Bool False),
     (K_colorPaletteShift, Num (Fin 120)), (K_interlaceSpeed, Num (Fin 0.12))]"

definition preset_lcd_handheld :: preset where
  "preset_lcd_handheld = [
     (K_scanOpacity, Num (Fin 0.5)), (K_scanlineColor, Num (Fin 0.4)),
     (K_hairlineOpacity, Num (Fin 0.35)), (K_fringeOpacity, Num (Fin 0.02)),
     (K_fringeDominant, Num (Fin 0.5)), (K_fringeJitterSpeed, Num (Fin 4.5)),
     (K_fringeJitterAmount, Num (Fin 4)), (K_noiseOpacity, Num (Fin 0.48)),
     (K_barrel, Num (Fin 3.6)), (K_scanSize, Num (Fin 2)), (K_scanDensity, Num (Fin 1)),
     (K_phosphorSize, Num (Fin 0.6)), (K_phosphorOpacityRed, Num (Fin 0.06)),
     (K_phosphorOpacityGreen, Num (Fin 0.16)), (K_phosphorOpacityBlue, Num (Fin 0.06)),
     (K_bloom, Num (Fin 0.06)), (K_bloomColor, Str ''green''), (K_bloomRadius, Num (Fin 1200)),
     (K_bloomDecay, Num (Fin 62)), (K_bloomBlur, Num (Fin 8)),
     (K_bloomBrightness, Num (Fin 0.8)), (K_vignetteOpacity, Num (Fin 0.91)),
     (K_vignetteRadius, Num (Fin 81)), (K_vignetteFeather, Num (Fin 44)),
     (K_vignetteColorLight, Num (Fin 0.42)), (K_vignetteColorDark, Num (Fin 0.78)),
     (K_reflectionOpacity, Num (Fin 0.05)), (K_reflectionSize, Num (Fin 1200)),
     (K_reflectionPositionX, Num (Fin 50)), (K_reflectionPositionY, Num (Fin 10)),
     (K_reflection, Bool False), (K_scanlineMask, Str ''soft''),
     (K_flickerOpacity, Num (Fin 0.2)), (K_flicker, Bool True),
     (K_colorPaletteShift, Num (Fin 140)), (K_interlaceSpeed, Num (Fin 0.12))]"

definition preset_classic_rgb :: preset where
  "preset_classic_rgb = [
     (K_scanOpacity, Num (Fin 0.79)), (K_scanlineColor, Num (Fin 0.11)),
     (K_hairlineOpacity, Num (Fin 0.19)), (K_fringeOpacity, Num (Fin 0.28)),
     (K_fringeDominant, Num (Fin 0.55)), (K_fringeJitterSpeed, Num (Fin 3.3)),
     (K_fringeJitterAmount, Num (Fin 2)), (K_noiseOpacity, Num (Fin 0.19)),
     (K_barrel, Num (Fin 1.5)), (K_scanSize, Num (Fin 3.8)), (K_scanDensity, Num (Fin 2.3)),
     (K_phosphorSize, Num (Fin 1.05)), (K_phosphorOpacityRed, Num (Fin 0.15)),
     (K_phosphorOpacityGreen, Num (Fin 0.15)), (K_phosphorOpacityBlue, Num (Fin 0.15)),
     (K_bloom, Num (Fin 0.18)), (K_bloomColor, Str ''white''), (K_bloomRadius, Num (Fin 1380)),
     (K_bloomDecay, Num (Fin 55)), (K_bloomBlur, Num (Fin 10)),
     (K_bloomBrightness, Num (Fin 1.2)), (K_vignetteOpacity, Num (Fin 0.86)),
     (K_vignetteRadius, Num (Fin 84)), (K_vignetteFeather, Num (Fin 38)),
     (K_vignetteColorLight, Num (Fin 0.32)), (K_vignetteColorDark, Num (Fin 0.67)),
     (K_reflectionOpacity, Num (Fin 0.03)), (K_reflectionSize, Num (Fin 1380)),
     (K_reflectionPositionX, Num (Fin 50)), (K_reflectionPositionY, Num (Fin 10)),
     (K_reflection, Bool False), (K_scanlineMask, Str ''shadow-mask''),
     (K_flickerOpacity, Num (Fin 0.1)), (K_flicker, Bool True),
     (K_colorPaletteShift, Num (Fin 10)), (K_interlaceSpeed, Num (Fin 0.08))]"

definition preset_precision_flatcrt :: preset where
  "preset_precision_flatcrt = [
     (K_scanOpacity, Num (Fin 0.68)), (K_scanlineColor, Num (Fin 0.16)),
     (K_hairlineOpacity, Num (Fin 0.22)), (K_fringeOpacity, Num (Fin 0.13)),
     (K_fringeDominant, Num (Fin 0.3)), (K_fringeJitterSpeed, Num (Fin 2.6)),
     (K_fringeJitterAmount, Num (Fin 1.2)), (K_noiseOpacity, Num (Fin 0.08)),
     (K_barrel, Num (Fin 1.3)), (K_scanSize, Num (Fin 3)), (K_scanDensity, Num (Fin 2.6)),
     (K_phosphorSize, Num (Fin 0.8)), (K_phosphorOpacityRed, Num (Fin 0.12)),
     (K_phosphorOpacityGreen, Num (Fin 0.13)), (K_phosphorOpacityBlue, Num (Fin 0.12)),
     (K_bloom, Num (Fin 0.28)), (K_bloomColor, Str ''white''), (K_bloomRadius, Num (Fin 1320)),
     (K_bloomDecay, Num (Fin 60)), (K_bloomBlur, Num (Fin 13)),
     (K_bloomBrightness, Num (Fin 1.4)), (K_vignetteOpacity, Num (Fin 0.83)),
     (K_vignetteRadius, Num (Fin 79)), (K_vignetteFeather, Num (Fin 30)),
     (K_vignetteColorLight, Num (Fin 0.22)), (K_vignetteColorDark, Num (Fin 0.5)),
     (K_reflectionOpacity, Num (Fin 0.015)), (K_reflectionSize, Num (Fin 1320)),
     (K_reflectionPositionX, Num (Fin 50)), (K_reflectionPositionY, Num (Fin 10)),
     (K_reflection, Bool False), (K_scanlineMask, Str ''sharp''),
     (K_flickerOpacity, Num (Fin 0.04)), (K_flicker, Bool False),
     (K_colorPaletteShift, Num (Fin (- 10))), (K_interlaceSpeed, Num (Fin 0.12))]"

definition preset_retro_studio :: preset where
  "preset_retro_studio = [
     (K_scanOpacity, Num (Fin 0.84)), (K_scanlineColor, Num (Fin 0.04)),
     (K_hairlineOpacity, Num (Fin 0.17)), (K_fringeOpacity, Num (Fin 0.22)),
     (K_fringeDominant, Num (Fin 0.52)), (K_fringeJitterSpeed, Num (Fin 3.2)),
     (K_fringeJitterAmount, Num (Fin 2)), (K_noiseOpacity, Num (Fin 0.24)),
     (K_barrel, Num (Fin 2.4)), (K_scanSize, Num (Fin 4.2)), (K_scanDensity, Num (Fin 2)),
     (K_phosphorSize, Num (Fin 1.08)), (K_phosphorOpacityRed, Num (Fin 0.15)),
     (K_phosphorOpacityGreen, Num (Fin 0.15)), (K_phosphorOpacityBlue, Num (Fin 0.15)),
     (K_bloom, Num (Fin 0.2)), (K_bloomColor, Str ''white''), (K_bloomRadius, Num (Fin 1400)),
     (K_bloomDecay, Num (Fin 54)), (K_bloomBlur, Num (Fin 10)),
     (K_bloomBrightness, Num (Fin 1.25)), (K_vignetteOpacity, Num (Fin 0.89)),
     (K_vignetteRadius, Num (Fin 86)), (K_vignetteFeather, Num (Fin 41)),
     (K_vignetteColorLight, Num (Fin 0.35)), (K_vignetteColorDark, Num (Fin 0.7)),
     (K_reflectionOpacity, Num (Fin 0.032)), (K_reflectionSize, Num (Fin 1400)),
     (K_reflectionPositionX, Num (Fin 50)), (K_reflectionPositionY, Num (Fin 10)),
     (K_reflection, Bool False), (K_scanlineMask, Str ''shadow-mask''),
     (K_flickerOpacity, Num (Fin 0.11)), (K_flicker, Bool True),
     (K_colorPaletteShift, Num (Fin 5)), (K_interlaceSpeed, Num (Fin 0.08))]"

definition preset_broadcast_monitor :: preset where
  "preset_broadcast_monitor = [
     (K_scanOpacity, Num (Fin 0.7)), (K_scanlineColor, Num (Fin 0.12)),
     (K_hairlineOpacity, Num (Fin 0.2)), (K_fringeOpacity, Num (Fin 0.08)),
     (K_fringeDominant, Num (Fin 0.45)), (K_fringeJitterSpeed, Num (Fin 2.7)),
     (K_fringeJitterAmount, Num (Fin 1)), (K_noiseOpacity, Num (Fin 0.08)),
     (K_barrel, Num (Fin 1.2)), (K_scanSize, Num (Fin 3)), (K_scanDensity, Num (Fin 2.5)),
     (K_phosphorSize, Num (Fin 0.85)), (K_phosphorOpacityRed, Num (Fin 0.14)),
     (K_phosphorOpacityGreen, Num (Fin 0.15)), (K_phosphorOpacityBlue, Num (Fin 0.14)),
     (K_bloom, Num (Fin 0.26)), (K_bloomColor, Str ''white''), (K_bloomRadius, Num (Fin 1280)),
     (K_bloomDecay, Num (Fin 58)), (K_bloomBlur, Num (Fin 12)),
     (K_bloomBrightness, Num (Fin 1.35)), (K_vignetteOpacity, Num (Fin 0.84)),
     (K_vignetteRadius, Num (Fin 81)), (K_vignetteFeather, Num (Fin 34)),
     (K_vignetteColorLight, Num (Fin 0.26)), (K_vignetteColorDark, Num (Fin 0.58)),
     (K_reflectionOpacity, Num (Fin 0.022)), (K_reflectionSize, Num (Fin 1280)),
     (K_reflectionPositionX, Num (Fin 50)), (K_reflectionPositionY, Num (Fin 10)),
     (K_reflection, Bool False), (K_scanlineMask, Str ''sharp''),
     (K_flickerOpacity, Num (Fin 0.04)), (K_flicker, Bool False),
     (K_colorPaletteShift, Num (Fin (- 3))), (K_interlaceSpeed, Num (Fin 0.12))]"

definition preset_rgb_professional :: preset where
  "preset_rgb_professional = [
     (K_scanOpacity, Num (Fin 0.68)), (K_scanlineColor, Num (Fin 0.15)),
     (K_hairlineOpacity, Num (Fin 0.18)), (K_fringeOpacity, Num (Fin 0.06)),
     (K_fringeDominant, Num (Fin 0.38)), (K_fringeJitterSpeed, Num (Fin 2.5)),
     (K_fringeJitterAmount, Num (Fin 0.8)), (K_noiseOpacity, Num (Fin 0.05)),
     (K_barrel, Num (Fin 0.9)), (K_scanSize, Num (Fin 2.8)), (K_scanDensity, Num (Fin 2.7)),
     (K_phosphorSize, Num (Fin 0.75)), (K_phosphorOpacityRed, Num (Fin 0.13)),
     (K_phosphorOpacityGreen, Num (Fin 0.15)), (K_phosphorOpacityBlue, Num (Fin 0.13)),
     (K_bloom, Num (Fin 0.3)), (K_bloomColor, Str ''white''), (K_bloomRadius, Num (Fin 1220)),
     (K_bloomDecay, Num (Fin 62)), (K_bloomBlur, Num (Fin 13)),
     (K_bloomBrightness, Num (Fin 1.4)), (K_vignetteOpacity, Num (Fin 0.81)),
     (K_vignetteRadius, Num (Fin 78)), (K_vignetteFeather, Num (Fin 30)),
     (K_vignetteColorLight, Num (Fin 0.23)), (K_vignetteColorDark, Num (Fin 0.52)),
     (K_reflectionOpacity, Num (Fin 0.018)), (K_reflectionSize, Num (Fin 1220)),
     (K_reflectionPositionX, Num (Fin 50)), (K_reflectionPositionY, Num (Fin 10)),
     (K_reflection, Bool False), (K_scanlineMask, Str ''aperture-grille''),
     (K_flickerOpacity, Num (Fin 0.03)), (K_flicker, Bool False),
     (K_colorPaletteShift, Num (Fin (- 8))), (K_interlaceSpeed, Num (Fin 0.12))]"

definition preset_phosphor_white :: preset where
  "preset_phosphor_white = [
     (K_scanOpacity, Num (Fin 0.75)), (K_scanlineColor, Num (Fin 0.2)),
     (K_hairlineOpacity, Num (Fin 0.23)), (K_fringeOpacity, Num (Fin 0.05)),
     (K_fringeDominant, Num (Fin 0.5)), (K_fringeJitterSpeed, Num (Fin 2.8)),
     (K_fringeJitterAmount, Num (Fin 1.2)), (K_noiseOpacity, Num (Fin 0.14)),
     (K_barrel, Num (Fin 1.8)), (K_scanSize, Num (Fin 3.8)), (K_scanDensity, Num (Fin 2.2)),
     (K_phosphorSize, Num (Fin 0.9)), (K_phosphorOpacityRed, Num (Fin 0.16)),
     (K_phosphorOpacityGreen, Num (Fin 0.16)), (K_phosphorOpacityBlue, Num (Fin 0.16)),
     (K_bloom, Num (Fin 0.18)), (K_bloomColor, Str ''white''), (K_bloomRadius, Num (Fin 1350)),
     (K_bloomDecay, Num (Fin 56)), (K_bloomBlur, Num (Fin 10)),
     (K_bloomBrightness, Num (Fin 1.25)), (K_vignetteOpacity, Num (Fin 0.87)),
     (K_vignetteRadius, Num (Fin 83)), (K_vignetteFeather, Num (Fin 37)),
     (K_vignetteColorLight, Num (Fin 0.31)), (K_vignetteColorDark, Num (Fin 0.64)),
     (K_reflectionOpacity, Num (Fin 0.026)), (K_reflectionSize, Num (Fin 1350)),
     (K_reflectionPositionX, Num (Fin 50)), (K_reflectionPositionY, Num (Fin 10)),
     (K_reflection, Bool False), (K_scanlineMask, Str ''sharp''),
     (K_flickerOpacity, Num (Fin 0.07)), (K_flicker, Bool True),
     (K_colorPaletteShift, Num (Fin 0)), (K_interlaceSpeed, Num (Fin 0.08))]"

definition preset_composite_color :: preset where
  "preset_composite_color = [
     (K_scanOpacity, Num (Fin 0.9)), (K_scanlineColor, Num (Fin 0.05)),
     (K_hairlineOpacity, Num (Fin 0.16)), (K_fringeOpacity, Num (Fin 0.42)),
     (K_fringeDominant, Num (Fin 0.68)), (K_fringeJitterSpeed, Num (Fin 3.9)),
     (K_fringeJitterAmount, Num (Fin 3.2)), (K_noiseOpacity, Num (Fin 0.38)),
     (K_barrel, Num (Fin 3.2)), (K_scanSize, Num (Fin 5.5)), (K_scanDensity, Num (Fin 1.7)),
     (K_phosphorSize, Num (Fin 1.3)), (K_phosphorOpacityRed, Num (Fin 0.17)),
     (K_phosphorOpacityGreen, Num (Fin 0.14)), (K_phosphorOpacityBlue, Num (Fin 0.16)),
     (K_bloom, Num (Fin 0.12)), (K_bloomColor, Str ''amber''), (K_bloomRadius, Num (Fin 1420)),
     (K_bloomDecay, Num (Fin 58)), (K_bloomBlur, Num (Fin 9)),
     (K_bloomBrightness, Num (Fin 1.05)), (K_vignetteOpacity, Num (Fin 0.92)),
     (K_vignetteRadius, Num (Fin 87)), (K_vignetteFeather, Num (Fin 40)),
     (K_vignetteColorLight, Num (Fin 0.37)), (K_vignetteColorDark, Num (Fin 0.74)),
     (K_reflectionOpacity, Num (Fin 0.038)), (K_reflectionSize, Num (Fin 1420)),
     (K_reflectionPositionX, Num (Fin 50)), (K_reflectionPositionY, Num (Fin 10)),
     (K_reflection, Bool False), (K_scanlineMask, Str ''shadow-mask''),
     (K_flickerOpacity, Num (Fin 0.14)), (K_flicker, Bool True),
     (K_colorPaletteShift, Num (Fin 20)), (K_interlaceSpeed, Num (Fin 0.08))]"

definition preset_plasma_display :: preset where
  "preset_plasma_display = [
     (K_scanOpacity, Num (Fin 0.4)), (K_scanlineColor, Num (Fin 0.5)),
     (K_hairlineOpacity, Num (Fin 0.08)), (K_fringeOpacity, Num (Fin 0.15)),
     (K_fringeDominant, Num (Fin 0.48)), (K_fringeJitterSpeed, Num (Fin 3.5)),
     (K_fringeJitterAmount, Num (Fin 1.8)), (K_noiseOpacity, Num (Fin 0.12)),
     (K_barrel, Num (Fin 0.5)), (K_scanSize, Num (Fin 2)), (K_scanDensity, Num (Fin 3)),
     (K_phosphorSize, Num (Fin 0.7)), (K_phosphorOpacityRed, Num (Fin 0.16)),
     (K_phosphorOpacityGreen, Num (Fin 0.14)), (K_phosphorOpacityBlue, Num (Fin 0.15)),
     (K_bloom, Num (Fin 0.35)), (K_bloomColor, Str ''white''), (K_bloomRadius, Num (Fin 1600)),
     (K_bloomDecay, Num (Fin 45)), (K_bloomBlur, Num (Fin 16)),
     (K_bloomBrightness, Num (Fin 1.6)), (K_vignetteOpacity, Num (Fin 0.78)),
     (K_vignetteRadius, Num (Fin 88)), (K_vignetteFeather, Num (Fin 38)),
     (K_vignetteColorLight, Num (Fin 0.28)), (K_vignetteColorDark, Num (Fin 0.62)),
     (K_reflectionOpacity, Num (Fin 0.05)), (K_reflectionSize, Num (Fin 1600)),
     (K_reflectionPositionX, Num (Fin 50)), (K_reflectionPositionY, Num (Fin 10)),
     (K_reflection, Bool False), (K_scanlineMask, Str ''soft''),
     (K_flickerOpacity, Num (Fin 0.06)), (K_flicker, Bool False),
     (K_colorPaletteShift, Num (Fin (- 15))), (K_interlaceSpeed, Num (Fin 0.12))]"

definition preset_vector_display :: preset where
  "preset_vector_display = [
     (K_scanOpacity, Num (Fin 0.3)), (K_scanlineColor, Num (Fin 0.6)),
     (K_hairlineOpacity, Num (Fin 0.05)), (K_fringeOpacity, Num (Fin 0.05)),
     (K_fringeDominant, Num (Fin 0.5)), (K_fringeJitterSpeed, Num (Fin 2.2)),
     (K_fringeJitterAmount, Num (Fin 0.5)), (K_noiseOpacity, Num (Fin 0.08)),
     (K_barrel, Num (Fin 1.6)), (K_scanSize, Num (Fin 2)), (K_scanDensity, Num (Fin 1)),
     (K_phosphorSize, Num (Fin 0.5)), (K_phosphorOpacityRed, Num (Fin 0.08)),
     (K_phosphorOpacityGreen, Num (Fin 0.18)), (K_phosphorOpacityBlue, Num (Fin 0.1)),
     (K_bloom, Num (Fin 0.45)), (K_bloomColor, Str ''green''), (K_bloomRadius, Num (Fin 1800)),
     (K_bloomDecay, Num (Fin 35)), (K_bloomBlur, Num (Fin 18)),
     (K_bloomBrightness, Num (Fin 1.8)), (K_vignetteOpacity, Num (Fin 0.88)),
     (K_vignetteRadius, Num (Fin 86)), (K_vignetteFeather, Num (Fin 45)),
     (K_vignetteColorLight, Num (Fin 0.38)), (K_vignetteColorDark, Num (Fin 0.76)),
     (K_reflectionOpacity, Num (Fin 0.02)), (K_reflectionSize, Num (Fin 1800)),
     (K_reflectionPositionX, Num (Fin 50)), (K_reflectionPositionY, Num (Fin 10)),
     (K_reflection, Bool False), (K_scanlineMask, Str ''soft''),
     (K_flickerOpacity, Num (Fin 0.05)), (K_flicker, Bool False),
     (K_colorPaletteShift, Num (Fin 130)), (K_interlaceSpeed, Num (Fin 0.12))]"

definition presets :: "(string \<times> preset) list" where
  "presets = [
     (''default'', preset_default),
     (''trinitron-fd'', preset_trinitron_fd),
     (''professional-monitor'', preset_professional_monitor),
     (''monitor-1084s'', preset_monitor_1084s),
     (''studio-display-crt'', preset_studio_display_crt),
     (''arcade-crt'', preset_arcade_crt),
     (''amber-phosphor'', preset_amber_phosphor),
     (''green-phosphor'', preset_green_phosphor),
     (''blue-phosphor'', preset_blue_phosphor),
     (''vt220-terminal'', preset_vt220_terminal),
     (''lcd-handheld'', preset_lcd_handheld),
     (''classic-rgb'', preset_classic_rgb),
     (''precision-flatcrt'', preset_precision_flatcrt),
     (''retro-studio'', preset_retro_studio),
     (''broadcast-monitor'', preset_broadcast_monitor),
     (''rgb-professional'', preset_rgb_professional),
     (''phosphor-white'', preset_phosphor_white),
     (''composite-color'', preset_composite_color),
     (''plasma-display'', preset_plasma_display),
     (''vector-display'', preset_vector_display)]"

definition getPreset :: "string \<Rightarrow> preset option" where
  "getPreset name = map_of presets name"

text \<open>
  \<open>Object.assign(this.config, preset)\<close>, key by key. Every preset above holds a number, a
  string or a boolean under a key of that type; a value of another type under a key leaves
  the model's configuration as it is.
\<close>

definition assignKey :: "key \<Rightarrow> jsval \<Rightarrow> config \<Rightarrow> config" where
  "assignKey k v c =
     (case v of
        Num x \<Rightarrow> setNum k x c
      | Bool b \<Rightarrow> setBool k b c
      | Str s \<Rightarrow> (case k of
                    K_bloomColor \<Rightarrow> c\<lparr>bloomColor := s\<rparr>
                  | K_scanlineMask \<Rightarrow> c\<lparr>scanlineMask := Str s\<rparr>
                  | _ \<Rightarrow> c))"

definition assign :: "preset \<Rightarrow> config \<Rightarrow> config" where
  "assign p c = foldl (\<lambda>c1 (k, v). assignKey k v c1) c p"

text \<open>
  \<open>applyPreset(preset)\<close>: the assignment, one \<open>setAttribute\<close> per entry with the key in
  attribute form and the value as a string, then the projections. The synchronisation of the
  controls panel in between is left out.
\<close>

definition applyPreset :: "preset \<Rightarrow> element \<Rightarrow> element" where
  "applyPreset p el =
     (let el1 = el\<lparr>config := assign p (config el)\<rparr>;
          el2 = foldl (\<lambda>e (k, v). setAttribute (kebab (keyName k)) (jsString v) e) el1 p
      in updateBarrel (updateStyles el2))"

text \<open>
  Applying a preset by name, as the change handler of the preset selector does: an unknown
  name changes nothing.
\<close>

definition presetSelectChange :: "string \<Rightarrow> element \<Rightarrow> element" where
  "presetSelectChange name el =
     (case getPreset name of None \<Rightarrow> el | Some p \<Rightarrow> applyPreset p el)"

section \<open>Reading the configuration by key\<close>

text \<open>The value of \<open>this.config[key]\<close> for the keys that presets list.\<close>

definition getKey :: "key \<Rightarrow> config \<Rightarrow> jsval option" where
  "getKey k c =
     (case k of
        K_scanOpacity \<Rightarrow> Some (Num (scanOpacity c))
      | K_scanlineColor \<Rightarrow> Some (Num (scanlineColor c))
      | K_hairlineOpacity \<Rightarrow> Some (Num (hairlineOpacity c))
      | K_fringeOpacity \<Rightarrow> Some (Num (fringeOpacity c))
      | K_fringeDominant \<Rightarrow> Some (Num (fringeDominant c))
      | K_fringeJitterSpeed \<Rightarrow> Some (Num (fringeJitterSpeed c))
      | K_fringeJitterAmount \<Rightarrow> Some (Num (fringeJitterAmount c))
      | K_noiseOpacity \<Rightarrow> Some (Num (noiseOpacity c))
      | K_barrel \<Rightarrow> Some (Num (barrel c))
      | K_scanSize \<Rightarrow> Some (Num (scanSize c))
      | K_scanDensity \<Rightarrow> Some (Num (scanDensity c))
      | K_phosphorSize \<Rightarrow> Some (Num (phosphorSize c))
      | K_phosphorOpacityRed \<Rightarrow> Some (Num (phosphorOpacityRed c))
      | K_phosphorOpacityGreen \<Rightarrow> Some (Num (phosphorOpacityGreen c))
      | K_phosphorOpacityBlue \<Rightarrow> Some (Num (phosphorOpacityBlue c))
      | K_bloom \<Rightarrow> Some (Num (bloom c))
      | K_bloomColor \<Rightarrow> Some (Str (bloomColor c))
      | K_bloomRadius \<Rightarrow> Some (Num (bloomRadius c))
      | K_bloomDecay \<Rightarrow> Some (Num (bloomDecay c))
      | K_bloomBlur \<Rightarrow> Some (Num (bloomBlur c))
      | K_bloomBrightness \<Rightarrow> Some (Num (bloomBrightness c))
      | K_vignetteOpacity \<Rightarrow> Some (Num (vignetteOpacity c))
      | K_vignetteRadius \<Rightarrow> Some (Num (vignetteRadius c))
      | K_vignetteFeather \<Rightarrow> Some (Num (vignetteFeather c))
      | K_vignetteColorLight \<Rightarrow> Some (Num (vignetteColorLight c))
      | K_vignetteColorDark \<Rightarrow> Some (Num (vignetteColorDark c))
      | K_reflectionOpacity \<Rightarrow> Some (Num (reflectionOpacity c))
      | K_reflectionSize \<Rightarrow> Some (Num (reflectionSize c))
      | K_reflectionPositionX \<Rightarrow> Some (Num (reflectionPositionX c))
      | K_reflectionPositionY \<Rightarrow> Some (Num (reflectionPositionY c))
      | K_reflection \<Rightarrow> Some (Bool (reflection c))
      | K_scanlineMask \<Rightarrow> Some (scanlineMask c)
      | K_flickerOpacity \<Rightarrow> Some (Num (flickerOpacity c))
      | K_flicker \<Rightarrow> Some (Bool (flicker c))
      | K_colorPaletteShift \<Rightarrow> Some (Num (colorPaletteShift c))
      | K_interlaceSpeed \<Rightarrow> Some (Num (interlaceSpeed c))
      | _ \<Rightarrow> None)"

definition floatKeys :: "key list" where
  "floatKeys = [
     K_scanOpacity, K_scanlineColor, K_hairlineOpacity, K_fringeOpacity, K_fringeDominant,
     K_fringeJitterSpeed, K_fringeJitterAmount, K_noiseOpacity, K_barrel, K_scanSize,
     K_scanDensity, K_phosphorSize, K_phosphorOpacityRed, K_phosphorOpacityGreen, K_phosphorOpacityBlue,
     K_bloom, K_bloomRadius, K_bloomDecay, K_bloomBlur, K_bloomBrightness,
     K_vignetteOpacity, K_vignetteRadius, K_vignetteFeather, K_vignetteColorLight, K_vignetteColorDark,
     K_reflectionOpacity, K_reflectionSize, K_reflectionPositionX, K_reflectionPositionY, K_scanlineMask,
     K_flickerOpacity, K_colorPaletteShift, K_interlaceSpeed]"

text \<open>
  An attribute is of the float kind when the callback's table knows it and it is none of the
  six names the callback treats specially.
\<close>

definition floatAttribute :: "string \<Rightarrow> bool" where
  "floatAttribute name =
     (map_of attrMap name \<noteq> None
      \<and> name \<notin> set [''flicker'', ''controls'', ''reflection'', ''apply-barrel-to'', ''mode'',
                      ''bloom-color''])"

text \<open>
  Checks on a preset: its keys are the 36 keys every preset lists, each value has the type
  of its key, and each value survives the trip through its attribute string.
\<close>

datatype kind = KNum | KStr | KBool

definition kindOf :: "jsval \<Rightarrow> kind" where
  "kindOf v = (case v of Num x \<Rightarrow> KNum | Str s \<Rightarrow> KStr | Bool b \<Rightarrow> KBool)"

definition kindFits :: "key \<Rightarrow> kind \<Rightarrow> bool" where
  "kindFits k t =
     (case t of
        KNum \<Rightarrow> k \<in> set floatKeys
      | KStr \<Rightarrow> k = K_bloomColor \<or> k = K_scanlineMask
      | KBool \<Rightarrow> k = K_flicker \<or> k = K_reflection)"

definition presetKeys :: "key list" where
  "presetKeys = [
     K_scanOpacity, K_scanlineColor, K_hairlineOpacity, K_fringeOpacity, K_fringeDominant,
     K_fringeJitterSpeed, K_fringeJitterAmount, K_noiseOpacity, K_barrel, K_scanSize,
     K_scanDensity, K_phosphorSize, K_phosphorOpacityRed, K_phosphorOpacityGreen, K_phosphorOpacityBlue,
     K_bloom, K_bloomColor, K_bloomRadius, K_bloomDecay, K_bloomBlur,
     K_bloomBrightness, K_vignetteOpacity, K_vignetteRadius, K_vignetteFeather, K_vignetteColorLight,
     K_vignetteColorDark, K_reflectionOpacity, K_reflectionSize, K_reflectionPositionX, K_reflectionPositionY,
     K_reflection, K_scanlineMask, K_flickerOpacity, K_flicker, K_colorPaletteShift,
     K_interlaceSpeed]"

definition presetKinds :: "kind list" where
  "presetKinds = [
     KNum, KNum, KNum, KNum, KNum, KNum, KNum, KNum, KNum, KNum, KNum, KNum,
     KNum, KNum, KNum, KNum, KStr, KNum, KNum, KNum, KNum, KNum, KNum, KNum,
     KNum, KNum, KNum, KNum, KNum, KNum, KBool, KStr, KNum, KBool, KNum, KNum]"

definition roundTrip :: "jsval \<Rightarrow> bool" where
  "roundTrip v =
     (case v of
        Num x \<Rightarrow> x \<noteq> NaN \<and> parseFloat (numToString x) = x
      | Str s \<Rightarrow> s \<noteq> []
      | Bool b \<Rightarrow> True)"

definition presetOK :: "preset \<Rightarrow> bool" where
  "presetOK p =
     (map fst p = presetKeys \<and> map kindOf (map snd p) = presetKinds
      \<and> list_all roundTrip (map snd p))"

text \<open>Two configurations that differ at most in the two flags that presets list.\<close>

definition maskFlags :: "config \<Rightarrow> config" where
  "maskFlags c = c\<lparr>flicker := False, reflection := False\<rparr>"

definition flagsOnly :: "config \<Rightarrow> config \<Rightarrow> bool" where
  "flagsOnly c c' = (maskFlags c' = maskFlags c)"

section \<open>Elements used in the examples\<close>

text \<open>
  A fresh overlay connected to the page, and an element whose configuration has been
  written directly, as the controls panel and embedding code do with \<open>this.config\<close>.
\<close>

definition overlay :: element where
  "overlay = connectedCallback (constructor ''crt1'')"

definition withConfig :: "(config \<Rightarrow> config) \<Rightarrow> element \<Rightarrow> element" where
  "withConfig f el = el\<lparr>config := f (config el)\<rparr>"

text \<open>An element with another mode stored.\<close>

definition withMode :: "jsnum \<Rightarrow> element \<Rightarrow> element" where
  "withMode m el = withConfig (\<lambda>c. c\<lparr>mode := m\<rparr>) el"

text \<open>The overlay with mode 0 stored next to the largest barrel amount and palette shift.\<close>

definition disabledOverlay :: element where
  "disabledOverlay =
     withConfig (\<lambda>c. c\<lparr>mode := Fin 0, barrel := Fin 6, colorPaletteShift := Fin 180\<rparr>) overlay"


section \<open>The projections do not write the configuration\<close>

lemma config_setLayer [simp]: "config (setLayer f el) = config el"
  by (simp add: setLayer_def)

lemma config_updateModeZIndex [simp]: "config (updateModeZIndex el) = config el"
  by (simp add: updateModeZIndex_def Let_def)

lemma config_applyGlobalFilters [simp]: "config (applyGlobalFilters a el) = config el"
  by (simp add: applyGlobalFilters_def Let_def)

lemma config_updateBarrel [simp]: "config (updateBarrel el) = config el"
  by (simp add: updateBarrel_def Let_def)

lemma config_updateExternalBloomLayer [simp]: "config (updateExternalBloomLayer el) = config el"
  by (simp add: updateExternalBloomLayer_def Let_def split: option.split)

lemma config_updateStyles [simp]: "config (updateStyles el) = config el"
  by (simp add: updateStyles_def)

lemma uid_updateModeZIndex [simp]: "uid (updateModeZIndex el) = uid el"
  by (simp add: updateModeZIndex_def setLayer_def Let_def)

lemma uid_updateExternalBloomLayer [simp]: "uid (updateExternalBloomLayer el) = uid el"
  by (simp add: updateExternalBloomLayer_def setLayer_def Let_def split: option.split)

lemma barrelUrl_not_none [simp]: "barrelUrl el \<noteq> ''none''"
  by (simp add: barrelUrl_def)

lemma barrelUrl_not_empty [simp]: "barrelUrl el \<noteq> []"
  by (simp add: barrelUrl_def)

text \<open>What the attribute callback does to the configuration, whatever has been rendered.\<close>

lemma config_attributeChangedCallback:
  "config (attributeChangedCallback name oldValue newValue el) =
     (if oldValue = newValue then config el
      else case map_of attrMap name of
             None \<Rightarrow> config el
           | Some key \<Rightarrow>
               if name = ''flicker'' \<or> name = ''controls'' \<or> name = ''reflection''
               then setBool key (newValue \<noteq> None) (config el)
               else if name = ''apply-barrel-to''
               then (config el)\<lparr>applyBarrelTo :=
                       (case newValue of None \<Rightarrow> None
                        | Some s \<Rightarrow> if s = [] then None else Some s)\<rparr>
               else if name = ''mode''
               then (config el)\<lparr>mode := (let n = parseInt10 (toStr newValue)
                                          in if truthyNum n then n else Fin 1)\<rparr>
               else if name = ''bloom-color''
               then (config el)\<lparr>bloomColor := orElse newValue ''white''\<rparr>
               else (let numeric = parseFloat (toStr newValue)
                     in if numeric = NaN then config el else setNum key numeric (config el)))"
  by (simp add: attributeChangedCallback_def Let_def split: option.split)

section \<open>Attribute parsing\<close>

lemma unobserved_attribute:
  "name \<notin> set observedAttributes \<Longrightarrow> config (setAttribute name v el) = config el"
  by (simp add: setAttribute_def Let_def)

lemma unobserved_names:
  "''scanline-mask'' \<notin> set observedAttributes" "''bloom-brightness'' \<notin> set observedAttributes"
  "''fringe-jitter-speed'' \<notin> set observedAttributes"
  "''fringe-jitter-amount'' \<notin> set observedAttributes"
  "''phosphor-opacity-red'' \<notin> set observedAttributes"
  "''phosphor-opacity-green'' \<notin> set observedAttributes"
  "''phosphor-opacity-blue'' \<notin> set observedAttributes"
  "''vignette-color-light'' \<notin> set observedAttributes"
  "''vignette-color-dark'' \<notin> set observedAttributes"
  by (simp_all add: observedAttributes_def)

lemma parse_examples:
  "parseFloat ''abc'' = NaN" "parseFloat ''soft'' = NaN" "parseFloat (toStr None) = NaN"
  "parseInt10 ''abc'' = NaN"
  by code_simp+

lemma float_examples: "floatAttribute ''scan-opacity''" "floatAttribute ''scanline-mask''"
  by code_simp+

text \<open>
  What the callback stores for an attribute of the float kind whose value parses: the parsed
  number itself, under the key the table gives.
\<close>

lemma float_attribute_stored_as_parsed:
  assumes "floatAttribute name" and "map_of attrMap name = Some k"
    and "parseFloat (toStr newValue) = x" and "x \<noteq> NaN" and "oldValue \<noteq> newValue"
  shows "config (attributeChangedCallback name oldValue newValue el) = setNum k x (config el)"
proof -
  from assms(1) have "name \<noteq> ''flicker''" "name \<noteq> ''controls''" "name \<noteq> ''reflection''"
    "name \<noteq> ''apply-barrel-to''" "name \<noteq> ''mode''" "name \<noteq> ''bloom-color''"
    by (auto simp: floatAttribute_def)
  with assms(2-5) show ?thesis
    by (simp add: config_attributeChangedCallback Let_def)
qed

text \<open>
  C1. According to the claim a numeric attribute is stored clamped to its declared range,
  which for \<open>scan-opacity\<close> is 0 to 1. The callback stores the parsed number as it is: 2
  stays 2 and -1 stays -1; only the value inside the range comes out as the claim says.
\<close>

theorem numeric_attribute_is_not_clamped:
  "scanOpacity (config (setAttribute ''scan-opacity'' ''2'' overlay)) = Fin 2
   \<and> scanOpacity (config (setAttribute ''scan-opacity'' ''-1'' overlay)) = Fin (- 1)
   \<and> scanOpacity (config (setAttribute ''scan-opacity'' ''0.5'' overlay)) = Fin 0.5"
  by code_simp

text \<open>
  C2. According to the claim the attribute value \<open>0\<close> stores mode 0. The callback parses
  the integer 0, finds it falsy and stores the fallback 1, so the overlay stays visible; the
  values \<open>1\<close> and \<open>2\<close> are stored as the claim says.
\<close>

theorem mode_attribute_zero_stores_one:
  "mode (config (setAttribute ''mode'' ''0'' overlay)) = Fin 1
   \<and> styleVisibility (setAttribute ''mode'' ''0'' overlay) = ''visible''
   \<and> mode (config (setAttribute ''mode'' ''0'' (setAttribute ''mode'' ''2'' overlay))) = Fin 1
   \<and> mode (config (setAttribute ''mode'' ''1'' overlay)) = Fin 1
   \<and> mode (config (setAttribute ''mode'' ''2'' overlay)) = Fin 2"
  by code_simp

text \<open>
  C5. According to the claim every documented parameter can be set through its attribute.
  Nine attribute names are in the callback's table but not among the observed attributes,
  so setting them, directly or through \<open>updateConfig\<close>, never reaches the configuration;
  and \<open>scanline-mask\<close> would be parsed as a number even if the callback ran.
\<close>

theorem unobserved_attributes_do_not_reach_config:
  "config (setAttribute ''scanline-mask'' ''soft'' overlay) = config overlay
   \<and> config (setAttribute ''bloom-brightness'' ''1.5'' overlay) = config overlay
   \<and> config (setAttribute ''fringe-jitter-speed'' ''2'' overlay) = config overlay
   \<and> config (setAttribute ''fringe-jitter-amount'' ''3'' overlay) = config overlay
   \<and> config (setAttribute ''phosphor-opacity-red'' ''0.2'' overlay) = config overlay
   \<and> config (setAttribute ''phosphor-opacity-green'' ''0.2'' overlay) = config overlay
   \<and> config (setAttribute ''phosphor-opacity-blue'' ''0.2'' overlay) = config overlay
   \<and> config (setAttribute ''vignette-color-light'' ''0.5'' overlay) = config overlay
   \<and> config (setAttribute ''vignette-color-dark'' ''0.5'' overlay) = config overlay
   \<and> config (updateConfig [(''bloomBrightness'', Num (Fin 1.5))] overlay) = config overlay
   \<and> config (attributeChangedCallback ''scanline-mask'' None (Some ''soft'') overlay)
       = config overlay"
proof -
  have "kebab ''bloomBrightness'' = ''bloom-brightness''"
    by code_simp
  then have "config (updateConfig [(''bloomBrightness'', Num (Fin 1.5))] overlay) = config overlay"
    by (simp add: updateConfig_def unobserved_attribute unobserved_names)
  moreover
  have "config (attributeChangedCallback ''scanline-mask'' None (Some ''soft'') overlay)
          = config overlay"
    using float_examples(2) parse_examples(2)
    by (auto simp: config_attributeChangedCallback floatAttribute_def toStr_def Let_def
          split: option.split)
  ultimately show ?thesis
    by (simp add: unobserved_attribute unobserved_names)
qed

text \<open>
  C9. For an attribute of the float kind and a value that \<open>parseFloat\<close> turns into \<open>NaN\<close>
  (a string, or \<open>null\<close> when the attribute is removed), the callback leaves the whole
  configuration as it was, and so does \<open>setAttribute\<close> with such a string. The callback
  is a total function with no error result: nothing is raised.
\<close>

theorem unparseable_float_attribute_keeps_config:
  assumes "floatAttribute name" and "parseFloat (toStr newValue) = NaN"
  shows "config (attributeChangedCallback name oldValue newValue el) = config el
       \<and> (\<forall>v. newValue = Some v \<longrightarrow> config (setAttribute name v el) = config el)"
proof -
  from assms(1) have ns: "name \<noteq> ''flicker''" "name \<noteq> ''controls''" "name \<noteq> ''reflection''"
    "name \<noteq> ''apply-barrel-to''" "name \<noteq> ''mode''" "name \<noteq> ''bloom-color''"
    by (auto simp: floatAttribute_def)
  have cb: "config (attributeChangedCallback name old newValue e) = config e" for old e
    using ns assms(2)
    by (simp add: config_attributeChangedCallback Let_def split: option.split)
  then show ?thesis
    by (auto simp: setAttribute_def Let_def)
qed

theorem unparseable_float_attribute_keeps_config_witness:
  "floatAttribute ''scan-opacity'' \<and> parseFloat (toStr (Some ''abc'')) = NaN
   \<and> config (attributeChangedCallback ''scan-opacity'' (Some ''0.5'') (Some ''abc'')
        (setAttribute ''scan-opacity'' ''0.5'' overlay))
       = config (setAttribute ''scan-opacity'' ''0.5'' overlay)
   \<and> config (setAttribute ''scan-opacity'' ''abc'' (setAttribute ''scan-opacity'' ''0.5'' overlay))
       = config (setAttribute ''scan-opacity'' ''0.5'' overlay)"
proof -
  have f: "floatAttribute ''scan-opacity''"
    by (rule float_examples)
  have p: "parseFloat (toStr (Some ''abc'')) = NaN"
    by (simp add: toStr_def parse_examples)
  from unparseable_float_attribute_keeps_config [OF f p] f p show ?thesis
    by simp
qed

section \<open>The bloom approximation\<close>

text \<open>
  For finite parameters outside the dead zone, the blur is the blur amount times
  \<open>max(0.15, bloom)\<close>, capped at 1.5, and the brightness is \<open>1 + bloom * bloomBrightness * 0.4\<close>.
\<close>

lemma js_max_Fin: "js_max (Fin x) (Fin y) = Fin (max x y)"
  by (auto simp: js_max_def max_def)

lemma js_min_Fin: "js_min (Fin x) (Fin y) = Fin (min x y)"
  by (auto simp: js_min_def min_def)

lemma js_mul_Fin: "js_mul (Fin x) (Fin y) = Fin (x * y)"
  by (simp add: js_mul_def)

lemma js_add_Fin: "js_add (Fin x) (Fin y) = Fin (x + y)"
  by (simp add: js_add_def)

lemma bloomApprox_finite:
  assumes "bloom c = Fin b" and "bloomBlur c = Fin q" and "bloomBrightness c = Fin m"
    and "0.05 \<le> b"
  shows "bloomApprox c = Some (Fin (min (q * max 0.15 b) 1.5), Fin (1 + b * m * 0.4))"
  using assms
  by (simp add: bloomApprox_def Let_def js_max_Fin js_min_Fin js_mul_Fin js_add_Fin)

lemma bloomApprox_dead_zone: "js_lt (bloom c) (Fin 0.05) \<Longrightarrow> bloomApprox c = None"
  by (simp add: bloomApprox_def)

lemma updateExternalBloomLayer_dead_zone:
  assumes "js_lt (bloom (config el)) (Fin 0.05)" and "externalBloomLayer el = Some l"
  shows "\<exists>l'. externalBloomLayer (updateExternalBloomLayer el) = Some l'
           \<and> backdropFilter l' = ''none'' \<and> webkitBackdropFilter l' = ''none''"
  using assms
  by (simp add: updateExternalBloomLayer_def bloomApprox_dead_zone Let_def setLayer_def
        updateModeZIndex_def)

text \<open>
  C4. According to the claim (and the README) the blur is capped at 2.5. With bloom 0.25
  and blur amount 16, both inside their documented ranges, the scaled blur is 4 and the
  code emits 1.5, not 2.5: the ceiling in the code is 1.5. The scaling by
  \<open>max(0.15, bloom)\<close> and the brightness are as the claim says.
\<close>

theorem bloom_blur_ceiling_is_one_and_a_half:
  "bloomApprox (defaultConfig\<lparr>bloom := Fin 0.25, bloomBlur := Fin 16, bloomBrightness := Fin 1\<rparr>)
     = Some (Fin 1.5, Fin 1.1)
   \<and> map_option fst
        (bloomApprox
           (config (setAttribute ''bloom-blur'' ''16'' (setAttribute ''bloom'' ''0.25'' overlay))))
       = Some (Fin 1.5)
   \<and> map_option (take 11 \<circ> backdropFilter)
        (externalBloomLayer
           (setAttribute ''bloom-blur'' ''16'' (setAttribute ''bloom'' ''0.25'' overlay)))
       = Some ''blur(1.5px)''"
  by code_simp

lemma updateExternalBloomLayer_emits:
  assumes "externalBloomLayer el = Some l" and "bloomApprox (config el) = Some (blur, bright)"
  shows "\<exists>l'. externalBloomLayer (updateExternalBloomLayer el) = Some l'
           \<and> backdropFilter l'
               = ''blur('' @ numToString blur @ ''px) brightness('' @ numToString bright @ '')''
           \<and> webkitBackdropFilter l' = backdropFilter l'"
  using assms
  by (simp add: updateExternalBloomLayer_def Let_def setLayer_def updateModeZIndex_def)

lemma bloomApprox_threshold:
  assumes "bloom c = Fin 0.05" and "bloomBlur c = Fin q"
  shows "\<exists>bright. bloomApprox c = Some (Fin (min (q * 0.15) 1.5), bright)"
  using assms
  by (simp add: bloomApprox_def Let_def js_max_Fin js_min_Fin js_mul_Fin)

text \<open>
  C8. With bloom strictly below 0.05 the bloom approximation is disabled: no blur and no
  brightness are computed, and the bloom layer gets the backdrop filter \<open>none\<close>. With
  bloom exactly 0.05 and the blur amount inside its declared range, 2 to 40, the bloom
  layer gets a backdrop filter with a blur that is not zero and is at most 2.5.
\<close>

theorem bloom_dead_zone:
  "(js_lt (bloom (config el)) (Fin 0.05) \<longrightarrow>
      bloomApprox (config el) = None
      \<and> (\<forall>l. externalBloomLayer el = Some l \<longrightarrow>
            (\<exists>l'. externalBloomLayer (updateExternalBloomLayer el) = Some l'
                  \<and> backdropFilter l' = ''none'' \<and> webkitBackdropFilter l' = ''none'')))
   \<and> (\<forall>q l. bloom (config el) = Fin 0.05 \<longrightarrow> bloomBlur (config el) = Fin q \<longrightarrow>
         2 \<le> q \<longrightarrow> q \<le> 40 \<longrightarrow> externalBloomLayer el = Some l \<longrightarrow>
         (\<exists>l' blur bright.
            externalBloomLayer (updateExternalBloomLayer el) = Some l'
            \<and> backdropFilter l'
                = ''blur('' @ numToString (Fin blur) @ ''px) brightness(''
                  @ numToString bright @ '')''
            \<and> webkitBackdropFilter l' = backdropFilter l'
            \<and> blur \<noteq> 0 \<and> 0 < blur \<and> blur \<le> 2.5))"
proof (intro conjI impI allI)
  assume "js_lt (bloom (config el)) (Fin 0.05)"
  then show "bloomApprox (config el) = None"
    by (rule bloomApprox_dead_zone)
next
  fix l
  assume "js_lt (bloom (config el)) (Fin 0.05)" and "externalBloomLayer el = Some l"
  then show "\<exists>l'. externalBloomLayer (updateExternalBloomLayer el) = Some l'
               \<and> backdropFilter l' = ''none'' \<and> webkitBackdropFilter l' = ''none''"
    by (rule updateExternalBloomLayer_dead_zone)
next
  fix q l
  assume b: "bloom (config el) = Fin 0.05" and q: "bloomBlur (config el) = Fin q"
    and lo: "2 \<le> q" and hi: "q \<le> 40" and layer: "externalBloomLayer el = Some l"
  from bloomApprox_threshold [OF b q] obtain bright
    where a: "bloomApprox (config el) = Some (Fin (min (q * 0.15) 1.5), bright)"
    by blast
  from updateExternalBloomLayer_emits [OF layer a] obtain l'
    where "externalBloomLayer (updateExternalBloomLayer el) = Some l'"
      and "backdropFilter l'
             = ''blur('' @ numToString (Fin (min (q * 0.15) 1.5)) @ ''px) brightness(''
               @ numToString bright @ '')''"
      and "webkitBackdropFilter l' = backdropFilter l'"
    by auto
  moreover from lo have "0 < min (q * 0.15) 1.5"
    by (simp add: min_def)
  moreover have "min (q * 0.15) 1.5 \<le> 2.5"
    by (simp add: min_def)
  ultimately show "\<exists>l' blur bright.
      externalBloomLayer (updateExternalBloomLayer el) = Some l'
      \<and> backdropFilter l'
          = ''blur('' @ numToString (Fin blur) @ ''px) brightness('' @ numToString bright @ '')''
      \<and> webkitBackdropFilter l' = backdropFilter l'
      \<and> blur \<noteq> 0 \<and> 0 < blur \<and> blur \<le> 2.5"
    by (intro exI [of _ l'] exI [of _ "min (q * 0.15) 1.5"] exI [of _ bright]) auto
qed

lemma threshold_examples:
  "js_lt (bloom (config (setAttribute ''bloom'' ''0.03'' overlay))) (Fin 0.05)"
  "bloom (config (setAttribute ''bloom'' ''0.05'' overlay)) = Fin 0.05"
  "bloomBlur (config (setAttribute ''bloom'' ''0.05'' overlay)) = Fin 10"
  "externalBloomLayer (setAttribute ''bloom'' ''0.03'' overlay) \<noteq> None"
  "externalBloomLayer (setAttribute ''bloom'' ''0.05'' overlay) \<noteq> None"
  by code_simp+

theorem bloom_dead_zone_witness:
  "js_lt (bloom (config (setAttribute ''bloom'' ''0.03'' overlay))) (Fin 0.05)
   \<and> bloomApprox (config (setAttribute ''bloom'' ''0.03'' overlay)) = None
   \<and> (\<exists>l'. externalBloomLayer (updateExternalBloomLayer (setAttribute ''bloom'' ''0.03'' overlay))
               = Some l'
             \<and> backdropFilter l' = ''none'')
   \<and> bloom (config (setAttribute ''bloom'' ''0.05'' overlay)) = Fin 0.05
   \<and> bloomBlur (config (setAttribute ''bloom'' ''0.05'' overlay)) = Fin 10
   \<and> (2::rat) \<le> 10 \<and> (10::rat) \<le> 40
   \<and> (\<exists>l' blur bright.
         externalBloomLayer (updateExternalBloomLayer (setAttribute ''bloom'' ''0.05'' overlay))
           = Some l'
         \<and> backdropFilter l'
             = ''blur('' @ numToString (Fin blur) @ ''px) brightness('' @ numToString bright @ '')''
         \<and> blur \<noteq> 0 \<and> blur \<le> 2.5)"
proof -
  note e = threshold_examples
  from e(4) obtain l3 where l3: "externalBloomLayer (setAttribute ''bloom'' ''0.03'' overlay) = Some l3"
    by auto
  from e(5) obtain l5 where l5: "externalBloomLayer (setAttribute ''bloom'' ''0.05'' overlay) = Some l5"
    by auto
  have r: "(2::rat) \<le> 10" "(10::rat) \<le> 40"
    by simp_all
  from bloom_dead_zone [of "setAttribute ''bloom'' ''0.03'' overlay"] e(1) l3
  have "bloomApprox (config (setAttribute ''bloom'' ''0.03'' overlay)) = None"
    and "\<exists>l'. externalBloomLayer (updateExternalBloomLayer (setAttribute ''bloom'' ''0.03'' overlay))
                 = Some l'
               \<and> backdropFilter l' = ''none''"
    by blast+
  moreover
  from bloom_dead_zone [of "setAttribute ''bloom'' ''0.05'' overlay"] e(2,3) r l5
  have "\<exists>l' blur bright.
          externalBloomLayer (updateExternalBloomLayer (setAttribute ''bloom'' ''0.05'' overlay))
            = Some l'
          \<and> backdropFilter l'
              = ''blur('' @ numToString (Fin blur) @ ''px) brightness('' @ numToString bright @ '')''
          \<and> blur \<noteq> 0 \<and> blur \<le> 2.5"
    by blast
  ultimately show ?thesis
    using e(1-3) r by blast
qed

section \<open>The page filter chain and the filtered class\<close>

lemma bodyFiltered_applyGlobalFilters:
  "bodyFiltered (applyGlobalFilters a el)
     = ((js_gt (barrel (config el)) (Fin 0) \<or> colorPaletteShift (config el) \<noteq> Fin 0)
        \<and> js_gt (mode (config el)) (Fin 0))"
  by (simp add: applyGlobalFilters_def Let_def)

lemma bodyFiltered_updateStyles:
  "rendered el \<Longrightarrow>
   bodyFiltered (updateStyles el)
     = ((js_gt (barrel (config el)) (Fin 0) \<or> colorPaletteShift (config el) \<noteq> Fin 0)
        \<and> js_gt (mode (config el)) (Fin 0))"
  by (simp add: updateStyles_def bodyFiltered_applyGlobalFilters)

lemma js_gt_zero_nonneg: "0 \<le> m \<Longrightarrow> js_gt (Fin m) (Fin 0) = (Fin m \<noteq> Fin 0)"
  by (auto simp: js_gt_def)

text \<open>
  C6, counterexample. The mode attribute \<open>-1\<close> stores mode -1, which is not the disabled
  mode 0: the overlay is visible. The barrel amount is 2, yet the filtered class is off
  after the projection.
\<close>

theorem filtered_class_off_at_negative_mode:
  "mode (config (setAttribute ''mode'' ''-1'' overlay)) = Fin (- 1)
   \<and> styleVisibility (setAttribute ''mode'' ''-1'' overlay) = ''visible''
   \<and> barrel (config (setAttribute ''mode'' ''-1'' overlay)) = Fin 2
   \<and> \<not> bodyFiltered (setAttribute ''mode'' ''-1'' overlay)
   \<and> \<not> bodyFiltered (updateStyles (setAttribute ''mode'' ''-1'' overlay))"
  by code_simp

text \<open>
  C6, as amended. After every projection the page-wide filtered class is active if and only
  if (the barrel amount is greater than 0 or the palette shift is not 0) and the mode is
  greater than 0. Mode 0 forces the class off whatever the other values are, and for every
  stored mode that is not negative the condition on the mode is that it is not 0.
\<close>

theorem filtered_class_iff:
  "bodyFiltered (applyGlobalFilters a el)
     = ((js_gt (barrel (config el)) (Fin 0) \<or> colorPaletteShift (config el) \<noteq> Fin 0)
        \<and> js_gt (mode (config el)) (Fin 0))
   \<and> (rendered el \<longrightarrow>
        bodyFiltered (updateStyles el)
          = ((js_gt (barrel (config el)) (Fin 0) \<or> colorPaletteShift (config el) \<noteq> Fin 0)
             \<and> js_gt (mode (config el)) (Fin 0)))
   \<and> (mode (config el) = Fin 0 \<longrightarrow>
        \<not> bodyFiltered (applyGlobalFilters a el)
        \<and> (rendered el \<longrightarrow> \<not> bodyFiltered (updateStyles el)))
   \<and> (\<forall>m. mode (config el) = Fin m \<longrightarrow> 0 \<le> m \<longrightarrow>
         bodyFiltered (applyGlobalFilters a el)
           = ((js_gt (barrel (config el)) (Fin 0) \<or> colorPaletteShift (config el) \<noteq> Fin 0)
              \<and> mode (config el) \<noteq> Fin 0))"
  by (auto simp: bodyFiltered_applyGlobalFilters bodyFiltered_updateStyles js_gt_def)

lemma disabled_overlay: "rendered disabledOverlay" "mode (config disabledOverlay) = Fin 0"
  by code_simp+

theorem filtered_class_iff_witness:
  "rendered disabledOverlay \<and> mode (config disabledOverlay) = Fin 0 \<and> (0::rat) \<le> 0
   \<and> barrel (config disabledOverlay) = Fin 6
   \<and> colorPaletteShift (config disabledOverlay) = Fin 180
   \<and> \<not> bodyFiltered (applyGlobalFilters None disabledOverlay)
   \<and> \<not> bodyFiltered (updateStyles disabledOverlay)"
proof -
  note r = disabled_overlay
  from filtered_class_iff [of None disabledOverlay] r
  have "\<not> bodyFiltered (applyGlobalFilters None disabledOverlay)
      \<and> \<not> bodyFiltered (updateStyles disabledOverlay)"
    by blast
  moreover have "barrel (config disabledOverlay) = Fin 6"
    and "colorPaletteShift (config disabledOverlay) = Fin 180"
    by code_simp+
  ultimately show ?thesis
    using r by simp
qed

lemma barrelUrl_projections [simp]:
  "barrelUrl (updateModeZIndex el) = barrelUrl el"
  "barrelUrl (updateExternalBloomLayer el) = barrelUrl el"
  by (simp_all add: barrelUrl_def)

lemma filterChain_applyGlobalFilters:
  "filterChainVar (applyGlobalFilters None el) =
     Some (if shouldApplyBarrel (config el)
           then (if colorPaletteShift (config el) \<noteq> Fin 0
                 then barrelUrl el @ '' '' @ hueFilter (config el) else barrelUrl el)
           else (if colorPaletteShift (config el) \<noteq> Fin 0
                 then hueFilter (config el) else ''none''))"
  by (simp add: applyGlobalFilters_def Let_def orElse_def shouldApplyBarrel_def)

lemma filterChain_updateBarrel:
  "filterChainVar (updateBarrel el) = filterChainVar (applyGlobalFilters None el)"
  by (simp add: updateBarrel_def applyGlobalFilters_def Let_def orElse_def shouldApplyBarrel_def)

lemma filterChain_updateStyles:
  "rendered el \<Longrightarrow> filterChainVar (updateStyles el) = filterChainVar (applyGlobalFilters None el)"
  by (simp add: updateStyles_def filterChain_applyGlobalFilters)

text \<open>
  C7, counterexample. With mode -1 stored (not the disabled mode 0), barrel amount 2 and
  palette shift 15, the chain is the hue rotation alone: the distortion filter is missing.
\<close>

theorem filter_chain_without_distortion_at_negative_mode:
  "mode (config (setAttribute ''color-palette-shift'' ''15'' (setAttribute ''mode'' ''-1'' overlay)))
     = Fin (- 1)
   \<and> barrel (config (setAttribute ''color-palette-shift'' ''15''
                       (setAttribute ''mode'' ''-1'' overlay))) = Fin 2
   \<and> filterChainVar (setAttribute ''color-palette-shift'' ''15'' (setAttribute ''mode'' ''-1'' overlay))
       = Some ''hue-rotate(15deg)''"
  by code_simp

text \<open>
  C7, as amended. The distortion filter is active iff the barrel amount is greater than 0
  and the mode is greater than 0; the hue rotation is active iff the palette shift is not
  0. The chain is the distortion filter reference, one space and the hue rotation when both
  are active, that one filter when one is active, and \<open>none\<close> when neither is; this is
  the chain after \<open>applyGlobalFilters\<close>, after \<open>updateBarrel\<close> and after \<open>updateStyles\<close>.
\<close>

theorem filter_chain_layout:
  "(shouldApplyBarrel (config el) \<and> colorPaletteShift (config el) \<noteq> Fin 0 \<longrightarrow>
      filterChainVar (applyGlobalFilters None el)
        = Some (barrelUrl el @ '' '' @ hueFilter (config el)))
   \<and> (shouldApplyBarrel (config el) \<and> colorPaletteShift (config el) = Fin 0 \<longrightarrow>
      filterChainVar (applyGlobalFilters None el) = Some (barrelUrl el))
   \<and> (\<not> shouldApplyBarrel (config el) \<and> colorPaletteShift (config el) \<noteq> Fin 0 \<longrightarrow>
      filterChainVar (applyGlobalFilters None el) = Some (hueFilter (config el)))
   \<and> (\<not> shouldApplyBarrel (config el) \<and> colorPaletteShift (config el) = Fin 0 \<longrightarrow>
      filterChainVar (applyGlobalFilters None el) = Some ''none'')
   \<and> filterChainVar (updateBarrel el) = filterChainVar (applyGlobalFilters None el)
   \<and> (rendered el \<longrightarrow>
      filterChainVar (updateStyles el) = filterChainVar (applyGlobalFilters None el))"
  by (simp add: filterChain_applyGlobalFilters filterChain_updateBarrel filterChain_updateStyles)

lemma chain_examples:
  "shouldApplyBarrel (config overlay)" "colorPaletteShift (config overlay) = Fin 0"
  "rendered overlay" "barrelUrl overlay = ''url(#crt-barrel-crt1)''"
  "shouldApplyBarrel (config (setAttribute ''color-palette-shift'' ''15'' overlay))"
  "colorPaletteShift (config (setAttribute ''color-palette-shift'' ''15'' overlay)) \<noteq> Fin 0"
  "barrelUrl (setAttribute ''color-palette-shift'' ''15'' overlay) = ''url(#crt-barrel-crt1)''"
  "hueFilter (config (setAttribute ''color-palette-shift'' ''15'' overlay)) = ''hue-rotate(15deg)''"
  "\<not> shouldApplyBarrel (config (setAttribute ''barrel'' ''0'' overlay))"
  "colorPaletteShift (config (setAttribute ''barrel'' ''0'' overlay)) = Fin 0"
  "\<not> shouldApplyBarrel (config (setAttribute ''color-palette-shift'' ''15''
                                   (setAttribute ''barrel'' ''0'' overlay)))"
  "colorPaletteShift (config (setAttribute ''color-palette-shift'' ''15''
                               (setAttribute ''barrel'' ''0'' overlay))) \<noteq> Fin 0"
  "hueFilter (config (setAttribute ''color-palette-shift'' ''15''
                        (setAttribute ''barrel'' ''0'' overlay))) = ''hue-rotate(15deg)''"
  by code_simp+

theorem filter_chain_layout_witness:
  "shouldApplyBarrel (config overlay) \<and> colorPaletteShift (config overlay) = Fin 0
   \<and> rendered overlay
   \<and> filterChainVar (updateStyles overlay) = Some ''url(#crt-barrel-crt1)''
   \<and> filterChainVar (applyGlobalFilters None (setAttribute ''color-palette-shift'' ''15'' overlay))
       = Some ''url(#crt-barrel-crt1) hue-rotate(15deg)''
   \<and> filterChainVar (applyGlobalFilters None (setAttribute ''barrel'' ''0'' overlay))
       = Some ''none''
   \<and> filterChainVar (applyGlobalFilters None
        (setAttribute ''color-palette-shift'' ''15'' (setAttribute ''barrel'' ''0'' overlay)))
       = Some ''hue-rotate(15deg)''"
proof -
  note e = chain_examples
  from filter_chain_layout [of overlay] e(1-3)
  have "filterChainVar (updateStyles overlay) = Some (barrelUrl overlay)"
    by simp
  moreover
  from filter_chain_layout [of "setAttribute ''color-palette-shift'' ''15'' overlay"] e(5,6)
  have "filterChainVar (applyGlobalFilters None (setAttribute ''color-palette-shift'' ''15'' overlay))
          = Some (barrelUrl (setAttribute ''color-palette-shift'' ''15'' overlay) @ '' ''
                  @ hueFilter (config (setAttribute ''color-palette-shift'' ''15'' overlay)))"
    by blast
  moreover
  from filter_chain_layout [of "setAttribute ''barrel'' ''0'' overlay"] e(9,10)
  have "filterChainVar (applyGlobalFilters None (setAttribute ''barrel'' ''0'' overlay))
          = Some ''none''"
    by blast
  moreover
  from filter_chain_layout
         [of "setAttribute ''color-palette-shift'' ''15'' (setAttribute ''barrel'' ''0'' overlay)"]
       e(11,12)
  have "filterChainVar (applyGlobalFilters None
          (setAttribute ''color-palette-shift'' ''15'' (setAttribute ''barrel'' ''0'' overlay)))
          = Some (hueFilter (config (setAttribute ''color-palette-shift'' ''15''
                                       (setAttribute ''barrel'' ''0'' overlay))))"
    by blast
  ultimately show ?thesis
    using e by simp
qed

section \<open>Modes outside 0, 1 and 2\<close>

lemma attrMap_mode: "map_of attrMap ''mode'' = Some K_mode"
  by code_simp

lemma updateModeZIndex_default_branch:
  assumes "m \<noteq> Fin 0" and "m \<noteq> Fin 1" and "m \<noteq> Fin 2"
  shows "updateModeZIndex (withMode m el) = withMode m (updateModeZIndex (withMode (Fin 1) el))"
  using assms
  by (simp add: updateModeZIndex_def withMode_def withConfig_def setLayer_def Let_def)

lemma globalStyle_no_target:
  assumes "m \<noteq> Fin 1" and "m \<noteq> Fin 2"
  shows "globalStyle (applyGlobalFilters a (withMode m el)) = map_option (\<lambda>_. []) (globalStyle el)"
  using assms
  by (simp add: applyGlobalFilters_def withMode_def withConfig_def Let_def split: option.split)

lemma unparseable_mode:
  assumes "parseInt10 (toStr v) = NaN" and "oldValue \<noteq> v"
  shows "mode (config (attributeChangedCallback ''mode'' oldValue v el)) = Fin 1"
  using assms
  by (simp add: config_attributeChangedCallback attrMap_mode truthyNum_def Let_def)

text \<open>
  C10, counterexample. With the mode attribute 5 the injected filter rule is empty, with the
  mode attribute 1 it is the rule for the background element: the global filter logic does
  not treat mode 5 as mode 1.
\<close>

theorem mode_five_clears_the_filter_rule:
  "mode (config (setAttribute ''mode'' ''5'' overlay)) = Fin 5
   \<and> globalStyle (setAttribute ''mode'' ''5'' overlay) = Some []
   \<and> mode (config (setAttribute ''mode'' ''1'' overlay)) = Fin 1
   \<and> globalStyle (setAttribute ''mode'' ''1'' overlay)
       = Some ''body.crt-filtered-crt1 .bg-image { filter: var(--crt-filter-chain-crt1, none) !important; }''"
  by code_simp

text \<open>
  C10, as amended. For every stored mode other than 0, 1 and 2, \<open>updateModeZIndex\<close> does
  exactly what it does for mode 1. \<open>applyGlobalFilters\<close> does not: for such a mode it has
  no filter target and empties the injected rule. A mode attribute that does not parse as
  an integer stores mode 1.
\<close>

theorem out_of_range_mode:
  "(m \<noteq> Fin 0 \<and> m \<noteq> Fin 1 \<and> m \<noteq> Fin 2 \<longrightarrow>
      updateModeZIndex (withMode m el) = withMode m (updateModeZIndex (withMode (Fin 1) el))
      \<and> globalStyle (applyGlobalFilters a (withMode m el))
          = map_option (\<lambda>_. []) (globalStyle el))
   \<and> (parseInt10 (toStr v) = NaN \<and> oldValue \<noteq> v \<longrightarrow>
        mode (config (attributeChangedCallback ''mode'' oldValue v el)) = Fin 1)"
  by (simp add: updateModeZIndex_default_branch globalStyle_no_target unparseable_mode)

theorem out_of_range_mode_witness:
  "Fin 5 \<noteq> Fin 0 \<and> Fin 5 \<noteq> Fin 1 \<and> Fin 5 \<noteq> Fin 2
   \<and> updateModeZIndex (withMode (Fin 5) overlay)
       = withMode (Fin 5) (updateModeZIndex (withMode (Fin 1) overlay))
   \<and> globalStyle (applyGlobalFilters None (withMode (Fin 5) overlay))
       = map_option (\<lambda>_. []) (globalStyle overlay)
   \<and> parseInt10 (toStr (Some ''abc'')) = NaN \<and> None \<noteq> Some ''abc''
   \<and> mode (config (attributeChangedCallback ''mode'' None (Some ''abc'') overlay)) = Fin 1"
proof -
  have p: "parseInt10 (toStr (Some ''abc'')) = NaN"
    by (simp add: toStr_def parse_examples)
  have d: "Fin 5 \<noteq> Fin 0 \<and> Fin 5 \<noteq> Fin 1 \<and> Fin 5 \<noteq> Fin 2"
    by simp
  from out_of_range_mode [of "Fin 5" overlay None "Some ''abc''" None] p d show ?thesis
    by simp
qed


section \<open>Presets: the checks hold for every preset\<close>

lemma presets_ok_1:
  "presetOK preset_default" "presetOK preset_trinitron_fd"
  "presetOK preset_professional_monitor" "presetOK preset_monitor_1084s"
  by code_simp+

lemma presets_ok_2:
  "presetOK preset_studio_display_crt" "presetOK preset_arcade_crt"
  "presetOK preset_amber_phosphor" "presetOK preset_green_phosphor"
  by code_simp+

lemma presets_ok_3:
  "presetOK preset_blue_phosphor" "presetOK preset_vt220_terminal"
  "presetOK preset_lcd_handheld" "presetOK preset_classic_rgb"
  by code_simp+

lemma presets_ok_4:
  "presetOK preset_precision_flatcrt" "presetOK preset_retro_studio"
  "presetOK preset_broadcast_monitor" "presetOK preset_rgb_professional"
  by code_simp+

lemma presets_ok_5:
  "presetOK preset_phosphor_white" "presetOK preset_composite_color"
  "presetOK preset_plasma_display" "presetOK preset_vector_display"
  by code_simp+

lemma getPreset_ok:
  assumes "getPreset name = Some p"
  shows "presetOK p"
proof -
  from assms have "(name, p) \<in> set presets"
    by (simp add: getPreset_def map_of_SomeD)
  then show ?thesis
    unfolding presets_def
    by (auto simp: presets_ok_1 presets_ok_2 presets_ok_3 presets_ok_4 presets_ok_5)
qed

lemma distinct_presetKeys: "distinct presetKeys"
  by code_simp

lemma kinds_fit_all: "list_all (\<lambda>kt. kindFits (fst kt) (snd kt)) (zip presetKeys presetKinds)"
  by code_simp

lemma zip_keys_kinds:
  "zip (map fst p) (map kindOf (map snd p)) = map (\<lambda>x. (fst x, kindOf (snd x))) p"
  by (induction p) simp_all

lemma presetOK_entry:
  assumes "presetOK p" and "(k, v) \<in> set p"
  shows "kindFits k (kindOf v)" and "roundTrip v" and "k \<in> set presetKeys"
proof -
  from assms(1) have keys: "map fst p = presetKeys"
    and kinds: "map kindOf (map snd p) = presetKinds"
    and trips: "list_all roundTrip (map snd p)"
    by (simp_all add: presetOK_def)
  from assms(2) have "v \<in> set (map snd p)" by force
  with trips show "roundTrip v"
    by (auto simp: list_all_iff)
  have "zip presetKeys presetKinds = zip (map fst p) (map kindOf (map snd p))"
    by (simp only: keys kinds)
  then have "zip presetKeys presetKinds = map (\<lambda>x. (fst x, kindOf (snd x))) p"
    by (simp only: zip_keys_kinds)
  with assms(2) have "(k, kindOf v) \<in> set (zip presetKeys presetKinds)"
    by force
  with kinds_fit_all show "kindFits k (kindOf v)"
    by (auto simp: list_all_iff)
  from assms(2) have "k \<in> set (map fst p)" by force
  with keys show "k \<in> set presetKeys" by simp
qed

section \<open>Presets: assignment\<close>

lemma getKey_assignKey_same:
  assumes "kindFits k (kindOf v)"
  shows "getKey k (assignKey k v c) = Some v"
proof (cases v)
  case (Num x)
  with assms have "k \<in> set floatKeys"
    by (simp add: kindFits_def kindOf_def)
  then have "getKey k (setNum k x c) = Some (Num x)"
    unfolding floatKeys_def by (auto simp: getKey_def setNum_def)
  with Num show ?thesis
    by (simp add: assignKey_def)
next
  case (Str s)
  with assms show ?thesis
    by (auto simp: kindFits_def kindOf_def assignKey_def getKey_def)
next
  case (Bool b)
  with assms show ?thesis
    by (auto simp: kindFits_def kindOf_def assignKey_def setBool_def getKey_def)
qed

lemma getKey_setNum_other: "k \<noteq> k' \<Longrightarrow> getKey k' (setNum k x c) = getKey k' c"
  by (cases k; cases k'; simp add: getKey_def setNum_def)

lemma getKey_setBool_other: "k \<noteq> k' \<Longrightarrow> getKey k' (setBool k b c) = getKey k' c"
  by (cases k; cases k'; simp add: getKey_def setBool_def)

lemma getKey_assignKey_other:
  assumes "k \<noteq> k'"
  shows "getKey k' (assignKey k v c) = getKey k' c"
proof (cases v)
  case (Num x)
  with assms show ?thesis
    by (simp add: assignKey_def getKey_setNum_other)
next
  case (Str s)
  with assms show ?thesis
    by (cases k; cases k'; simp add: assignKey_def getKey_def)
next
  case (Bool b)
  with assms show ?thesis
    by (simp add: assignKey_def getKey_setBool_other)
qed

lemma unlisted_setNum:
  "mode (setNum k x c) = mode c" "controls (setNum k x c) = controls c"
  "applyBarrelTo (setNum k x c) = applyBarrelTo c"
  "legacyInterlace (setNum k x c) = legacyInterlace c"
  "legacyBloom (setNum k x c) = legacyBloom c"
  by (cases k; simp add: setNum_def)+

lemma unlisted_assignKey:
  assumes "k \<noteq> K_controls"
  shows "mode (assignKey k v c) = mode c" and "controls (assignKey k v c) = controls c"
    and "applyBarrelTo (assignKey k v c) = applyBarrelTo c"
    and "legacyInterlace (assignKey k v c) = legacyInterlace c"
    and "legacyBloom (assignKey k v c) = legacyBloom c"
  using assms
  by (cases v; cases k; simp add: assignKey_def unlisted_setNum setBool_def)+

lemma getKey_foldl_assign_other:
  "k \<notin> fst ` set xs \<Longrightarrow>
   getKey k (foldl (\<lambda>c1 (k, v). assignKey k v c1) c xs) = getKey k c"
  by (induction xs arbitrary: c) (auto simp: getKey_assignKey_other)

lemma getKey_foldl_assign:
  assumes "distinct (map fst xs)" and "(k, v) \<in> set xs"
    and "\<And>k' v'. (k', v') \<in> set xs \<Longrightarrow> kindFits k' (kindOf v')"
  shows "getKey k (foldl (\<lambda>c1 (k, v). assignKey k v c1) c xs) = Some v"
  using assms
proof (induction xs arbitrary: c)
  case Nil
  then show ?case by simp
next
  case (Cons e xs)
  obtain k1 v1 where e: "e = (k1, v1)" by (cases e)
  show ?case
  proof (cases "(k, v) = e")
    case True
    with Cons.prems(1) e have "k \<notin> fst ` set xs" by auto
    moreover from True e Cons.prems(3) have "kindFits k (kindOf v)" by auto
    ultimately show ?thesis
      using True e by (simp add: getKey_foldl_assign_other getKey_assignKey_same)
  next
    case False
    with Cons.prems have "(k, v) \<in> set xs" and "distinct (map fst xs)" by auto
    then show ?thesis
      using Cons.IH [of "assignKey k1 v1 c"] Cons.prems(3) e by simp
  qed
qed

lemma unlisted_foldl_assign:
  assumes "K_controls \<notin> fst ` set xs"
  shows "mode (foldl (\<lambda>c1 (k, v). assignKey k v c1) c xs) = mode c
       \<and> controls (foldl (\<lambda>c1 (k, v). assignKey k v c1) c xs) = controls c
       \<and> applyBarrelTo (foldl (\<lambda>c1 (k, v). assignKey k v c1) c xs) = applyBarrelTo c
       \<and> legacyInterlace (foldl (\<lambda>c1 (k, v). assignKey k v c1) c xs) = legacyInterlace c
       \<and> legacyBloom (foldl (\<lambda>c1 (k, v). assignKey k v c1) c xs) = legacyBloom c"
  using assms
  by (induction xs arbitrary: c) (auto simp: unlisted_assignKey)

lemma controls_not_preset_key: "K_controls \<notin> set presetKeys"
  by (simp add: presetKeys_def)

lemma assign_listed:
  assumes "presetOK p" and "(k, v) \<in> set p"
  shows "getKey k (assign p c) = Some v"
proof -
  from assms(1) have "distinct (map fst p)"
    by (simp add: presetOK_def distinct_presetKeys)
  then show ?thesis
    unfolding assign_def
    using assms(2) presetOK_entry(1) [OF assms(1)] by (rule getKey_foldl_assign)
qed

lemma assign_unlisted:
  assumes "presetOK p"
  shows "mode (assign p c) = mode c \<and> controls (assign p c) = controls c
       \<and> applyBarrelTo (assign p c) = applyBarrelTo c
       \<and> legacyInterlace (assign p c) = legacyInterlace c
       \<and> legacyBloom (assign p c) = legacyBloom c"
proof -
  from assms have "fst ` set p = set presetKeys"
    by (metis presetOK_def set_map)
  with controls_not_preset_key have "K_controls \<notin> fst ` set p" by simp
  then show ?thesis
    unfolding assign_def by (rule unlisted_foldl_assign)
qed

section \<open>Presets: the attribute loop\<close>

lemma floatKeys_attr_all:
  "list_all (\<lambda>k. map_of attrMap (kebab (keyName k)) = Some k \<and> floatAttribute (kebab (keyName k)))
     floatKeys"
  by code_simp

lemma floatKeys_attr:
  assumes "k \<in> set floatKeys"
  shows "map_of attrMap (kebab (keyName k)) = Some k" and "floatAttribute (kebab (keyName k))"
  using assms floatKeys_attr_all by (auto simp: list_all_iff)

lemma kebab_special:
  "kebab (keyName K_bloomColor) = ''bloom-color''"
  "kebab (keyName K_scanlineMask) = ''scanline-mask''"
  "kebab (keyName K_flicker) = ''flicker''"
  "kebab (keyName K_reflection) = ''reflection''"
  by code_simp+

lemma attrMap_special:
  "map_of attrMap ''bloom-color'' = Some K_bloomColor"
  "map_of attrMap ''flicker'' = Some K_flicker"
  "map_of attrMap ''reflection'' = Some K_reflection"
  "''scanline-mask'' \<notin> set observedAttributes"
  by code_simp+

lemma setNum_same: "k \<in> set floatKeys \<Longrightarrow> getKey k c = Some (Num x) \<Longrightarrow> setNum k x c = c"
  unfolding floatKeys_def by (auto simp: getKey_def setNum_def)

lemma flagsOnly_refl: "flagsOnly c c"
  by (simp add: flagsOnly_def)

lemma flagsOnly_trans: "flagsOnly a b \<Longrightarrow> flagsOnly b c \<Longrightarrow> flagsOnly a c"
  by (simp add: flagsOnly_def)

lemma floatKeys_no_flags: "K_flicker \<notin> set floatKeys" "K_reflection \<notin> set floatKeys"
  by (simp_all add: floatKeys_def)

lemma step_num:
  assumes "k \<in> set floatKeys" and "getKey k (config el) = Some (Num x)"
    and "x \<noteq> NaN" and "parseFloat (numToString x) = x"
  shows "config (setAttribute (kebab (keyName k)) (numToString x) el) = config el"
proof -
  let ?n = "kebab (keyName k)"
  from floatKeys_attr [OF assms(1)]
  have m: "map_of attrMap ?n = Some k" and f: "floatAttribute ?n" by simp_all
  from f have ns: "?n \<noteq> ''flicker''" "?n \<noteq> ''controls''" "?n \<noteq> ''reflection''"
    "?n \<noteq> ''apply-barrel-to''" "?n \<noteq> ''mode''" "?n \<noteq> ''bloom-color''"
    by (auto simp: floatAttribute_def)
  from assms(1,2) have "setNum k x (config el) = config el"
    by (rule setNum_same)
  with m ns assms(3,4) show ?thesis
    by (simp add: setAttribute_def Let_def config_attributeChangedCallback toStr_def)
qed

lemma step_str:
  assumes "k = K_bloomColor \<or> k = K_scanlineMask" and "getKey k (config el) = Some (Str s)"
    and "s \<noteq> []"
  shows "config (setAttribute (kebab (keyName k)) s el) = config el"
  using assms
  by (auto simp: kebab_special attrMap_special setAttribute_def Let_def
        config_attributeChangedCallback getKey_def orElse_def)

lemma step_bool:
  assumes "k = K_flicker \<or> k = K_reflection"
  shows "flagsOnly (config el) (config (setAttribute (kebab (keyName k)) s el))"
  using assms
  by (auto simp: kebab_special attrMap_special setAttribute_def Let_def
        config_attributeChangedCallback flagsOnly_def maskFlags_def setBool_def)

lemma step_entry:
  assumes "kindFits k (kindOf v)" and "roundTrip v"
    and "k \<noteq> K_flicker \<Longrightarrow> k \<noteq> K_reflection \<Longrightarrow> getKey k (config el) = Some v"
  shows "flagsOnly (config el) (config (setAttribute (kebab (keyName k)) (jsString v) el))"
proof (cases v)
  case (Num x)
  with assms(1) have k: "k \<in> set floatKeys"
    by (simp add: kindFits_def kindOf_def)
  with floatKeys_no_flags have "k \<noteq> K_flicker" and "k \<noteq> K_reflection" by auto
  with assms(3) Num have g: "getKey k (config el) = Some (Num x)" by simp
  from assms(2) Num have "x \<noteq> NaN" and "parseFloat (numToString x) = x"
    by (simp_all add: roundTrip_def)
  with k g have "config (setAttribute (kebab (keyName k)) (numToString x) el) = config el"
    by (rule step_num)
  with Num show ?thesis
    by (simp add: jsString_def flagsOnly_refl)
next
  case (Str s)
  with assms(1) have k: "k = K_bloomColor \<or> k = K_scanlineMask"
    by (simp add: kindFits_def kindOf_def)
  then have "k \<noteq> K_flicker" and "k \<noteq> K_reflection" by auto
  with assms(3) Str have g: "getKey k (config el) = Some (Str s)" by simp
  from assms(2) Str have "s \<noteq> []"
    by (simp add: roundTrip_def)
  with k g have "config (setAttribute (kebab (keyName k)) s el) = config el"
    by (rule step_str)
  with Str show ?thesis
    by (simp add: jsString_def flagsOnly_refl)
next
  case (Bool b)
  with assms(1) have "k = K_flicker \<or> k = K_reflection"
    by (simp add: kindFits_def kindOf_def)
  then show ?thesis
    by (rule step_bool)
qed

lemma getKey_maskFlags:
  "k \<noteq> K_flicker \<Longrightarrow> k \<noteq> K_reflection \<Longrightarrow> getKey k (maskFlags c) = getKey k c"
  by (cases k; simp add: getKey_def maskFlags_def)

lemma getKey_flagsOnly:
  assumes "flagsOnly c c'" and "k \<noteq> K_flicker" and "k \<noteq> K_reflection"
  shows "getKey k c' = getKey k c"
proof -
  from assms(2,3) have "getKey k c' = getKey k (maskFlags c')"
    by (simp add: getKey_maskFlags)
  also from assms(1) have "\<dots> = getKey k (maskFlags c)"
    by (simp add: flagsOnly_def)
  also from assms(2,3) have "\<dots> = getKey k c"
    by (simp add: getKey_maskFlags)
  finally show ?thesis .
qed

lemma unlisted_flagsOnly:
  assumes "flagsOnly c c'"
  shows "mode c' = mode c \<and> controls c' = controls c \<and> applyBarrelTo c' = applyBarrelTo c
       \<and> legacyInterlace c' = legacyInterlace c \<and> legacyBloom c' = legacyBloom c"
proof -
  from assms have e: "maskFlags c' = maskFlags c"
    by (simp add: flagsOnly_def)
  have "mode (maskFlags c') = mode c'" "controls (maskFlags c') = controls c'"
    "applyBarrelTo (maskFlags c') = applyBarrelTo c'"
    "legacyInterlace (maskFlags c') = legacyInterlace c'"
    "legacyBloom (maskFlags c') = legacyBloom c'"
    by (simp_all add: maskFlags_def)
  moreover have "mode (maskFlags c) = mode c" "controls (maskFlags c) = controls c"
    "applyBarrelTo (maskFlags c) = applyBarrelTo c"
    "legacyInterlace (maskFlags c) = legacyInterlace c"
    "legacyBloom (maskFlags c) = legacyBloom c"
    by (simp_all add: maskFlags_def)
  ultimately show ?thesis
    using e by metis
qed

lemma attribute_loop:
  assumes ok: "presetOK p"
  shows "set xs \<subseteq> set p \<Longrightarrow>
    (\<And>k v. (k, v) \<in> set p \<Longrightarrow> k \<noteq> K_flicker \<Longrightarrow> k \<noteq> K_reflection \<Longrightarrow>
       getKey k (config el) = Some v) \<Longrightarrow>
    flagsOnly (config el)
      (config (foldl (\<lambda>e (k, v). setAttribute (kebab (keyName k)) (jsString v) e) el xs))"
proof (induction xs arbitrary: el)
  case Nil
  show ?case by (simp add: flagsOnly_refl)
next
  case (Cons e xs)
  obtain k v where e: "e = (k, v)" by (cases e)
  with Cons.prems(1) have mem: "(k, v) \<in> set p" by simp
  let ?el = "setAttribute (kebab (keyName k)) (jsString v) el"
  from presetOK_entry [OF ok mem] Cons.prems(2) [OF mem]
  have s: "flagsOnly (config el) (config ?el)"
    by (intro step_entry) simp_all
  have "getKey k' (config ?el) = Some v'"
    if "(k', v') \<in> set p" "k' \<noteq> K_flicker" "k' \<noteq> K_reflection" for k' v'
    using getKey_flagsOnly [OF s that(2,3)] Cons.prems(2) [OF that] by simp
  moreover from Cons.prems(1) have "set xs \<subseteq> set p" by simp
  ultimately have
    "flagsOnly (config ?el)
       (config (foldl (\<lambda>e (k, v). setAttribute (kebab (keyName k)) (jsString v) e) ?el xs))"
    by (intro Cons.IH) simp_all
  with s e show ?case
    by (simp add: flagsOnly_trans)
qed

lemma applyPreset_config:
  assumes ok: "presetOK p"
  shows "flagsOnly (assign p (config el)) (config (applyPreset p el))"
proof -
  let ?el1 = "el\<lparr>config := assign p (config el)\<rparr>"
  have "flagsOnly (config ?el1)
          (config (foldl (\<lambda>e (k, v). setAttribute (kebab (keyName k)) (jsString v) e) ?el1 p))"
  proof (rule attribute_loop [OF ok])
    show "set p \<subseteq> set p" by simp
  next
    fix k v
    assume "(k, v) \<in> set p"
    with ok have "getKey k (assign p (config el)) = Some v"
      by (rule assign_listed)
    then show "getKey k (config ?el1) = Some v" by simp
  qed
  then show ?thesis
    by (simp add: applyPreset_def Let_def)
qed

section \<open>Presets: what applying a preset by name does\<close>

lemma presetSelectChange_unlisted:
  assumes "getPreset name = Some p"
  shows "mode (config (presetSelectChange name el)) = mode (config el)
       \<and> controls (config (presetSelectChange name el)) = controls (config el)
       \<and> applyBarrelTo (config (presetSelectChange name el)) = applyBarrelTo (config el)
       \<and> legacyInterlace (config (presetSelectChange name el)) = legacyInterlace (config el)
       \<and> legacyBloom (config (presetSelectChange name el)) = legacyBloom (config el)"
proof -
  from assms have ok: "presetOK p"
    by (rule getPreset_ok)
  from assms have eq: "presetSelectChange name el = applyPreset p el"
    by (simp add: presetSelectChange_def)
  from unlisted_flagsOnly [OF applyPreset_config [OF ok, of el]]
    assign_unlisted [OF ok, of "config el"]
  show ?thesis
    unfolding eq by simp
qed

lemma presetSelectChange_listed:
  assumes "getPreset name = Some p" and "(k, v) \<in> set p"
    and "k \<noteq> K_flicker" and "k \<noteq> K_reflection"
  shows "getKey k (config (presetSelectChange name el)) = Some v"
proof -
  from assms(1) have ok: "presetOK p"
    by (rule getPreset_ok)
  from assms(1) have eq: "presetSelectChange name el = applyPreset p el"
    by (simp add: presetSelectChange_def)
  from getKey_flagsOnly [OF applyPreset_config [OF ok, of el] assms(3,4)]
    assign_listed [OF ok assms(2)]
  show ?thesis
    unfolding eq by simp
qed

lemma getPreset_default: "getPreset ''default'' = Some preset_default"
  by code_simp

lemma getPreset_arcade: "getPreset ''arcade-crt'' = Some preset_arcade_crt"
  by code_simp

lemma arcade_barrel: "(K_barrel, Num (Fin 4.8)) \<in> set preset_arcade_crt"
  by (simp add: preset_arcade_crt_def)

lemma overlay_mode: "mode (config overlay) = Fin 1"
  by code_simp

lemma overlay_mode_2: "mode (config (setAttribute ''mode'' ''2'' overlay)) = Fin 2"
  by code_simp

text \<open>
  C3, counterexample. The preset \<open>default\<close> is applied to a fresh overlay and to one whose
  \<open>mode\<close> attribute was set to 2 before: the two resulting configurations differ, so the
  result does depend on the configuration before.
\<close>

theorem preset_result_depends_on_prior_state:
  "config (presetSelectChange ''default'' (setAttribute ''mode'' ''2'' overlay))
     \<noteq> config (presetSelectChange ''default'' overlay)"
proof
  assume "config (presetSelectChange ''default'' (setAttribute ''mode'' ''2'' overlay))
            = config (presetSelectChange ''default'' overlay)"
  then have "mode (config (presetSelectChange ''default'' (setAttribute ''mode'' ''2'' overlay)))
               = mode (config (presetSelectChange ''default'' overlay))"
    by simp
  with presetSelectChange_unlisted [OF getPreset_default, of "setAttribute ''mode'' ''2'' overlay"]
    presetSelectChange_unlisted [OF getPreset_default, of overlay]
  have "mode (config (setAttribute ''mode'' ''2'' overlay)) = mode (config overlay)"
    by simp
  with overlay_mode overlay_mode_2 show False
    by simp
qed

text \<open>
  C3, as amended. Applying a preset by name overwrites every key the preset lists, apart
  from the two boolean flags \<open>flicker\<close> and \<open>reflection\<close>, with the preset's own literal,
  whatever the configuration and the attributes were before; the keys no preset lists
  (\<open>mode\<close>, \<open>controls\<close>, \<open>applyBarrelTo\<close>, \<open>legacyInterlace\<close>, \<open>legacyBloom\<close>) keep the
  values they had. So two applications of a preset agree on every listed key other than
  the two flags.
\<close>

theorem preset_overwrites_listed_keys:
  assumes "getPreset name = Some p"
  shows "(\<forall>(k, v) \<in> set p. k \<noteq> K_flicker \<longrightarrow> k \<noteq> K_reflection \<longrightarrow>
            getKey k (config (presetSelectChange name el)) = Some v)
       \<and> mode (config (presetSelectChange name el)) = mode (config el)
       \<and> controls (config (presetSelectChange name el)) = controls (config el)
       \<and> applyBarrelTo (config (presetSelectChange name el)) = applyBarrelTo (config el)
       \<and> legacyInterlace (config (presetSelectChange name el)) = legacyInterlace (config el)
       \<and> legacyBloom (config (presetSelectChange name el)) = legacyBloom (config el)"
  using presetSelectChange_listed [OF assms] presetSelectChange_unlisted [OF assms, of el]
  by auto

theorem preset_overwrites_listed_keys_witness:
  "getPreset ''arcade-crt'' = Some preset_arcade_crt
   \<and> barrel (config (presetSelectChange ''arcade-crt'' overlay)) = Fin 4.8
   \<and> barrel (config (presetSelectChange ''arcade-crt''
                       (presetSelectChange ''arcade-crt'' overlay))) = Fin 4.8
   \<and> mode (config (presetSelectChange ''arcade-crt'' overlay)) = Fin 1"
proof -
  note h = getPreset_arcade
  from preset_overwrites_listed_keys [OF h, of overlay] arcade_barrel
  have "getKey K_barrel (config (presetSelectChange ''arcade-crt'' overlay)) = Some (Num (Fin 4.8))"
    and "mode (config (presetSelectChange ''arcade-crt'' overlay)) = mode (config overlay)"
    by auto
  moreover
  from preset_overwrites_listed_keys [OF h, of "presetSelectChange ''arcade-crt'' overlay"]
    arcade_barrel
  have "getKey K_barrel (config (presetSelectChange ''arcade-crt''
           (presetSelectChange ''arcade-crt'' overlay))) = Some (Num (Fin 4.8))"
    by auto
  ultimately show ?thesis
    using h overlay_mode by (simp add: getKey_def)
qed

text \<open>
  The two flags are a different matter. Every preset lists \<open>reflection: false\<close>, and the
  attribute loop writes the string \<open>false\<close> into the \<open>reflection\<close> attribute. On an
  element without that attribute the callback runs and, the attribute being present, turns
  the flag on; on the second application the attribute value is unchanged, the callback
  returns at once, and the flag stays off as assigned.
\<close>

lemma preset_flags_follow_attributes:
  "reflection (config (presetSelectChange ''default'' (constructor ''crt1''))) = True
   \<and> reflection (config (presetSelectChange ''default''
                           (presetSelectChange ''default'' (constructor ''crt1'')))) = False"
  by code_simp


end
